theory Spec2Isabelle
  imports Main
begin

section \<open>Data model\<close>

text \<open>
  Modelled from the spec: the source files import their data types (\<^verbatim>\<open>ResourceIdentifier\<close>,
  \<^verbatim>\<open>Representation\<close>, \<^verbatim>\<open>RepresentationMetadata\<close>, \<^verbatim>\<open>RepresentationPreferences\<close>, \<^verbatim>\<open>Patch\<close>,
  \<^verbatim>\<open>Conditions\<close>, \<^verbatim>\<open>CredentialSet\<close>, \<^verbatim>\<open>Operation\<close>, \<^verbatim>\<open>ResponseDescription\<close>) and do not declare
  them. This section gives them the shape of sections 3 and 6 of the specification, with the
  fields the source files read and write.
\<close>

text \<open>
  Modelled from the spec: the error classes of \<^verbatim>\<open>util/errors\<close> are not among the source
  files; section 7 of the specification fixes the kinds. An error value carries its kind
  and its message. \<^verbatim>\<open>NotFoundHttpError.isInstance\<close> recognises the kind \<open>NotFound\<close>.
\<close>

datatype ErrorKind =
  NotFound | PreconditionFailed | ValidationError | Unauthorized | Forbidden | InternalError

datatype error = HttpError ErrorKind string

definition NotFoundHttpError_isInstance :: "error \<Rightarrow> bool" where
  "NotFoundHttpError_isInstance e = (case e of HttpError kind message \<Rightarrow> kind = NotFound)"

text \<open>
  An asynchronous call that may reject: it runs on the state of everything outside the
  handler (stores, files, collaborators) and returns either the rejection (\<open>Inl\<close>) or the
  value (\<open>Inr\<close>), together with the state it leaves.
\<close>

type_synonym ('a, 'w) promise = "'w \<Rightarrow> (error + 'a) \<times> 'w"

record ResourceIdentifier =
  path :: string

record RepresentationMetadata =
  md_identifier :: ResourceIdentifier
  md_quads :: "(string \<times> string) list"

text \<open>
  \<^verbatim>\<open>new RepresentationMetadata(identifier)\<close> holds no value yet; \<^verbatim>\<open>metadata.getAll(predicate)\<close>
  gives the values stored under a predicate, in insertion order.
\<close>

definition new_RepresentationMetadata :: "ResourceIdentifier \<Rightarrow> RepresentationMetadata" where
  "new_RepresentationMetadata identifier = \<lparr>md_identifier = identifier, md_quads = []\<rparr>"

definition getAll :: "RepresentationMetadata \<Rightarrow> string \<Rightarrow> string list" where
  "getAll md predicate_name = map snd (filter (\<lambda>q. fst q = predicate_name) (md_quads md))"

record Representation =
  metadata :: RepresentationMetadata
  data :: string

record Term =
  termType :: string
  term_value :: string

record Quad =
  subject :: Term
  predicate :: Term
  object :: Term

text \<open>
  The algebra of a SPARQL update as the handler reads it: an optional list \<^verbatim>\<open>updates\<close>
  whose items may carry \<^verbatim>\<open>delete\<close> and \<^verbatim>\<open>insert\<close> arrays, and optional \<^verbatim>\<open>delete\<close> and
  \<^verbatim>\<open>insert\<close> arrays of its own. An absent property is \<open>None\<close>; an array, also an empty one,
  is truthy in JavaScript.
\<close>

record UpdateItem =
  item_delete :: "Quad list option"
  item_insert :: "Quad list option"

record Update =
  algebra_updates :: "UpdateItem list option"
  algebra_delete :: "Quad list option"
  algebra_insert :: "Quad list option"

text \<open>A \<^verbatim>\<open>Patch\<close> is a \<^verbatim>\<open>Representation\<close>; a \<^verbatim>\<open>SparqlUpdatePatch\<close> carries an \<^verbatim>\<open>algebra\<close> as well.\<close>

record Patch = Representation +
  algebra :: "Update option"

record SecureFlag =
  enable :: nat

record RepresentationPreferences =
  pref_type :: "(string \<times> nat) list"
  secure :: "SecureFlag option"

text \<open>The literal \<^verbatim>\<open>{}\<close> passed as preferences.\<close>

definition emptyPreferences :: RepresentationPreferences where
  "emptyPreferences = \<lparr>pref_type = [], secure = None\<rparr>"

type_synonym Conditions = string

datatype AccessMode = Read | Append | Create | Write | Delete | Control

type_synonym PermissionSet = "(AccessMode \<times> bool) list"

record AttributePermissions =
  readOnly :: "string list"
  hide :: "string list"

record CredentialSet =
  agent :: "string option"
  client :: "string option"
  issuer :: "string option"

record HttpRequest =
  request_method :: string
  url :: string
  headers :: "(string \<times> string) list"

record Operation =
  operation_method :: string
  target :: ResourceIdentifier
  preferences :: RepresentationPreferences
  conditions :: "Conditions option"
  body :: Representation
  permissionSet :: "PermissionSet option"
  attributePermissions :: "AttributePermissions option"

record OperationHttpHandlerInput =
  request :: HttpRequest
  operation :: Operation

record ResponseDescription =
  statusCode :: nat
  response_data :: "string option"

section \<open>ResourceStore and PassthroughStore\<close>

text \<open>
  The \<^verbatim>\<open>ResourceStore\<close> interface: six asynchronous operations. An optional argument is an
  \<open>option\<close>, \<open>None\<close> standing for \<^verbatim>\<open>undefined\<close>.
\<close>

record 'w ResourceStore =
  hasResource :: "ResourceIdentifier \<Rightarrow> (bool, 'w) promise"
  getRepresentation ::
    "ResourceIdentifier \<Rightarrow> RepresentationPreferences \<Rightarrow> Conditions option
      \<Rightarrow> (Representation, 'w) promise"
  addResource ::
    "ResourceIdentifier \<Rightarrow> Representation \<Rightarrow> Conditions option
      \<Rightarrow> (ResourceIdentifier, 'w) promise"
  deleteResource ::
    "ResourceIdentifier \<Rightarrow> Conditions option \<Rightarrow> (ResourceIdentifier list, 'w) promise"
  modifyResource ::
    "ResourceIdentifier \<Rightarrow> Patch \<Rightarrow> Conditions option \<Rightarrow> RepresentationPreferences option
      \<Rightarrow> (ResourceIdentifier list, 'w) promise"
  setRepresentation ::
    "ResourceIdentifier \<Rightarrow> Representation \<Rightarrow> Conditions option
      \<Rightarrow> RepresentationPreferences option \<Rightarrow> (ResourceIdentifier list, 'w) promise"

text \<open>\<^verbatim>\<open>PassthroughStore\<close>: every method returns the call of the same method of \<^verbatim>\<open>this.source\<close>.\<close>

definition PassthroughStore :: "'w ResourceStore \<Rightarrow> 'w ResourceStore" where
  "PassthroughStore source =
     \<lparr>hasResource = (\<lambda>identifier. hasResource source identifier),
      getRepresentation = (\<lambda>identifier prefs conds.
         getRepresentation source identifier prefs conds),
      addResource = (\<lambda>container representation conds.
         addResource source container representation conds),
      deleteResource = (\<lambda>identifier conds. deleteResource source identifier conds),
      modifyResource = (\<lambda>identifier patch conds prefs.
         modifyResource source identifier patch conds prefs),
      setRepresentation = (\<lambda>identifier representation conds prefs.
         setRepresentation source identifier representation conds prefs)\<rparr>"

section \<open>RepresentationPatchHandler\<close>

text \<open>
  \<^verbatim>\<open>FileDataAccessor\<close> is a class of the repository whose file is not among the sources. The
  three methods the handlers call are taken as they are called: \<^verbatim>\<open>getData(id, options?)\<close>,
  \<^verbatim>\<open>writeDocument(id, data, metadata, options?)\<close> and \<^verbatim>\<open>getMetadata(id)\<close>. The options
  argument is \<^verbatim>\<open>{secure: {enable: n}}\<close> or is left out; it is modelled by the value under
  \<^verbatim>\<open>secure\<close>. The record stands for the accessor the handlers construct over
  \<^verbatim>\<open>new ExtensionBasedMapper('http://localhost:3001', './.data')\<close>.
\<close>

record 'w FileDataAccessor =
  getData :: "ResourceIdentifier \<Rightarrow> SecureFlag option \<Rightarrow> (string, 'w) promise"
  writeDocument ::
    "ResourceIdentifier \<Rightarrow> string \<Rightarrow> RepresentationMetadata \<Rightarrow> SecureFlag option
      \<Rightarrow> (unit, 'w) promise"
  getMetadata :: "ResourceIdentifier \<Rightarrow> (RepresentationMetadata, 'w) promise"

text \<open>\<^verbatim>\<open>patcher.handleSafe({ patch, identifier, representation })\<close>.\<close>

type_synonym 'w RepresentationPatcher =
  "Patch \<Rightarrow> ResourceIdentifier \<Rightarrow> Representation option \<Rightarrow> (Representation, 'w) promise"

definition secureOff :: string where
  "secureOff = ''http://zteq.com/ac/0.1/secureOff''"

text \<open>
  \<^verbatim>\<open>algebra.updates?.find((item) => item.delete)?.delete || algebra.delete || {}\<close>, and the
  same for \<^verbatim>\<open>insert\<close>. \<^verbatim>\<open>Object.values\<close> of the array is the list of its quads, of \<^verbatim>\<open>{}\<close>
  the empty list.
\<close>

definition deleteData :: "Update \<Rightarrow> Quad list" where
  "deleteData alg =
     (case (case algebra_updates alg of
              None \<Rightarrow> None
            | Some items \<Rightarrow>
                (case find (\<lambda>item. item_delete item \<noteq> None) items of
                   None \<Rightarrow> None
                 | Some item \<Rightarrow> item_delete item)) of
        Some quads \<Rightarrow> quads
      | None \<Rightarrow> (case algebra_delete alg of Some quads \<Rightarrow> quads | None \<Rightarrow> []))"

definition insertData :: "Update \<Rightarrow> Quad list" where
  "insertData alg =
     (case (case algebra_updates alg of
              None \<Rightarrow> None
            | Some items \<Rightarrow>
                (case find (\<lambda>item. item_insert item \<noteq> None) items of
                   None \<Rightarrow> None
                 | Some item \<Rightarrow> item_insert item)) of
        Some quads \<Rightarrow> quads
      | None \<Rightarrow> (case algebra_insert alg of Some quads \<Rightarrow> quads | None \<Rightarrow> []))"

text \<open>
  \<^verbatim>\<open>.filter(quad => quad.predicate.value === predicate).map(quad => quad.object.value)\<close>
\<close>

definition secureOffObjects :: "Quad list \<Rightarrow> string list" where
  "secureOffObjects quads =
     map (\<lambda>quad. term_value (object quad))
       (filter (\<lambda>quad. term_value (predicate quad) = secureOff) quads)"

text \<open>
  The two \<^verbatim>\<open>for (const path of ...)\<close> loops: read the document of each path and write it
  back. They differ in which of the two calls gets the options \<^verbatim>\<open>{secure: {enable: 0}}\<close>.
  A rejected call leaves the loop with its error.
\<close>

fun rewriteDocuments ::
  "'w FileDataAccessor \<Rightarrow> SecureFlag option \<Rightarrow> SecureFlag option \<Rightarrow> string list
    \<Rightarrow> (unit, 'w) promise" where
  "rewriteDocuments accessor readOptions writeOptions [] w = (Inr (), w)"
| "rewriteDocuments accessor readOptions writeOptions (p # paths) w =
     (case getData accessor \<lparr>path = p\<rparr> readOptions w of
        (Inl err, w1) \<Rightarrow> (Inl err, w1)
      | (Inr dat, w1) \<Rightarrow>
          (case writeDocument accessor \<lparr>path = p\<rparr> dat
                  (new_RepresentationMetadata \<lparr>path = p\<rparr>) writeOptions w1 of
             (Inl err, w2) \<Rightarrow> (Inl err, w2)
           | (Inr u, w2) \<Rightarrow> rewriteDocuments accessor readOptions writeOptions paths w2))"

text \<open>The body of the \<^verbatim>\<open>try\<close> block between the patcher call and the commit.\<close>

definition secureOffBody :: "'w FileDataAccessor \<Rightarrow> Patch \<Rightarrow> (unit, 'w) promise" where
  "secureOffBody accessor patch w =
     (case algebra patch of
        None \<Rightarrow> (Inr (), w)
      | Some alg \<Rightarrow>
          (case rewriteDocuments accessor (Some \<lparr>enable = 0\<rparr>) None
                  (secureOffObjects (deleteData alg)) w of
             (Inl err, w1) \<Rightarrow> (Inl err, w1)
           | (Inr u, w1) \<Rightarrow>
               rewriteDocuments accessor None (Some \<lparr>enable = 0\<rparr>)
                 (secureOffObjects (insertData alg)) w1))"

text \<open>The block with its \<^verbatim>\<open>catch (err) { console.log(err) }\<close>: it never rejects.\<close>

definition secureOffBlock ::
  "'w FileDataAccessor \<Rightarrow> (error \<Rightarrow> 'w \<Rightarrow> 'w) \<Rightarrow> Patch \<Rightarrow> 'w \<Rightarrow> 'w" where
  "secureOffBlock accessor console_log patch w =
     (case secureOffBody accessor patch w of
        (Inl err, w1) \<Rightarrow> console_log err w1
      | (Inr u, w1) \<Rightarrow> w1)"

text \<open>
  The first \<^verbatim>\<open>try\<close> block: the representation of the resource, \<open>None\<close> (\<^verbatim>\<open>undefined\<close>) when
  the store rejects with a \<^verbatim>\<open>NotFoundHttpError\<close>; any other rejection is thrown again.
\<close>

definition getOriginal ::
  "'w ResourceStore \<Rightarrow> ResourceIdentifier \<Rightarrow> (Representation option, 'w) promise" where
  "getOriginal source identifier w =
     (case getRepresentation source identifier emptyPreferences None w of
        (Inr representation, w1) \<Rightarrow> (Inr (Some representation), w1)
      | (Inl err, w1) \<Rightarrow>
          if \<not> NotFoundHttpError_isInstance err then (Inl err, w1) else (Inr None, w1))"

text \<open>
  \<^verbatim>\<open>RepresentationPatchHandler.handle({ source, patch, identifier, preferences })\<close>. The
  patcher, the accessor and the console are parameters. The \<^verbatim>\<open>logger.debug\<close> lines only
  write a message and are left out.
\<close>

definition RepresentationPatchHandler_handle ::
  "'w RepresentationPatcher \<Rightarrow> 'w FileDataAccessor \<Rightarrow> (error \<Rightarrow> 'w \<Rightarrow> 'w)
    \<Rightarrow> 'w ResourceStore \<Rightarrow> Patch \<Rightarrow> ResourceIdentifier \<Rightarrow> RepresentationPreferences option
    \<Rightarrow> (ResourceIdentifier list, 'w) promise" where
  "RepresentationPatchHandler_handle patcher accessor console_log source patch identifier prefs w =
     (case getOriginal source identifier w of
        (Inl err, w1) \<Rightarrow> (Inl err, w1)
      | (Inr representation, w1) \<Rightarrow>
          (case patcher patch identifier representation w1 of
             (Inl err, w2) \<Rightarrow> (Inl err, w2)
           | (Inr patched, w2) \<Rightarrow>
               setRepresentation source identifier patched None prefs
                 (secureOffBlock accessor console_log patch w2)))"

section \<open>AuthorizingHttpHandler\<close>

text \<open>
  \<^verbatim>\<open>SingleRootIdentifierStrategy\<close> is not among the source files: the two methods the handler
  calls are parameters. \<^verbatim>\<open>getParentContainer\<close> may throw.
\<close>

record IdentifierStrategy =
  isRootContainer :: "ResourceIdentifier \<Rightarrow> bool"
  getParentContainer :: "ResourceIdentifier \<Rightarrow> error + ResourceIdentifier"

text \<open>
  The five collaborators of \<^verbatim>\<open>AuthorizingHttpHandlerArgs\<close>, each called through
  \<^verbatim>\<open>handleSafe\<close>. The permission reader is handed the object \<^verbatim>\<open>attributePermissions\<close>, which
  the handler later attaches to the operation: the reader returns the permission set
  together with that object as it leaves it.
\<close>

record 'w AuthorizingHttpHandlerArgs =
  credentialsExtractor :: "HttpRequest \<Rightarrow> (CredentialSet, 'w) promise"
  modesExtractor :: "Operation \<Rightarrow> (AccessMode list, 'w) promise"
  permissionReader ::
    "CredentialSet \<Rightarrow> ResourceIdentifier \<Rightarrow> AccessMode list \<Rightarrow> AttributePermissions
      \<Rightarrow> (PermissionSet \<times> AttributePermissions, 'w) promise"
  authorizer ::
    "CredentialSet \<Rightarrow> ResourceIdentifier \<Rightarrow> AccessMode list \<Rightarrow> PermissionSet
      \<Rightarrow> (unit, 'w) promise"
  operationHandler :: "OperationHttpHandlerInput \<Rightarrow> (ResponseDescription, 'w) promise"

text \<open>
  The body of the second \<^verbatim>\<open>try\<close> block: for a target that is not the root container, read
  the metadata of the parent container and set \<^verbatim>\<open>operation.preferences.secure\<close> to
  \<^verbatim>\<open>{enable: filteredList.length ? 0 : 1}\<close>.
\<close>

definition secureFlagBody ::
  "IdentifierStrategy \<Rightarrow> 'w FileDataAccessor \<Rightarrow> Operation \<Rightarrow> (Operation, 'w) promise" where
  "secureFlagBody identifierStrategy accessor op w =
     (if \<not> isRootContainer identifierStrategy (target op) then
        (case getParentContainer identifierStrategy (target op) of
           Inl err \<Rightarrow> (Inl err, w)
         | Inr parent \<Rightarrow>
             (case getMetadata accessor parent w of
                (Inl err, w1) \<Rightarrow> (Inl err, w1)
              | (Inr md, w1) \<Rightarrow>
                  (let filteredList =
                         filter (\<lambda>item. item = path (target op)) (getAll md secureOff)
                   in (Inr (op\<lparr>preferences := (preferences op)
                               \<lparr>secure := Some \<lparr>enable = (if length filteredList \<noteq> 0 then 0 else 1)\<rparr>\<rparr>\<rparr>),
                       w1))))
      else (Inr op, w))"

text \<open>The block with its \<^verbatim>\<open>catch(err){ console.log(err) }\<close>: the operation as the block leaves it.\<close>

definition secureFlagBlock ::
  "IdentifierStrategy \<Rightarrow> 'w FileDataAccessor \<Rightarrow> (error \<Rightarrow> 'w \<Rightarrow> 'w) \<Rightarrow> Operation \<Rightarrow> 'w
    \<Rightarrow> Operation \<times> 'w" where
  "secureFlagBlock identifierStrategy accessor console_log op w =
     (case secureFlagBody identifierStrategy accessor op w of
        (Inl err, w1) \<Rightarrow> (op, console_log err w1)
      | (Inr op', w1) \<Rightarrow> (op', w1))"

text \<open>
  \<^verbatim>\<open>AuthorizingHttpHandler.handle(input)\<close>. The operation is an object shared with the caller
  and the next handler: the model passes the updated operation on. The calls of
  \<^verbatim>\<open>this.logger\<close> (\<^verbatim>\<open>verbose\<close> and \<^verbatim>\<open>file\<close>) only write a message and are left out.
\<close>

definition AuthorizingHttpHandler_handle ::
  "'w AuthorizingHttpHandlerArgs \<Rightarrow> IdentifierStrategy \<Rightarrow> 'w FileDataAccessor
    \<Rightarrow> (error \<Rightarrow> 'w \<Rightarrow> 'w) \<Rightarrow> OperationHttpHandlerInput \<Rightarrow> (ResponseDescription, 'w) promise" where
  "AuthorizingHttpHandler_handle args identifierStrategy accessor console_log input w =
     (case credentialsExtractor args (request input) w of
        (Inl err, w1) \<Rightarrow> (Inl err, w1)
      | (Inr credentials, w1) \<Rightarrow>
     (case modesExtractor args (operation input) w1 of
        (Inl err, w2) \<Rightarrow> (Inl err, w2)
      | (Inr modes, w2) \<Rightarrow>
     (case permissionReader args credentials (target (operation input)) modes
             \<lparr>readOnly = [], hide = []\<rparr> w2 of
        (Inl err, w3) \<Rightarrow> (Inl err, w3)
      | (Inr (permissions, attributePerms), w3) \<Rightarrow>
     (case authorizer args credentials (target (operation input)) modes permissions w3 of
        (Inl err, w4) \<Rightarrow> (Inl err, w4)
      | (Inr u, w4) \<Rightarrow>
          (case secureFlagBlock identifierStrategy accessor console_log
                  ((operation input)\<lparr>permissionSet := Some permissions,
                                      attributePermissions := Some attributePerms\<rparr>) w4 of
             (op, w5) \<Rightarrow> operationHandler args (input\<lparr>operation := op\<rparr>) w5)))))"

section \<open>ContainerInitializer\<close>

text \<open>
  The asynchronous iterable returned by \<^verbatim>\<open>generator.generate\<close>: a lazy, finite sequence
  that ends, yields a resource and goes on, or throws.
\<close>

datatype 'a AsyncIterable = Done | Yield 'a "'a AsyncIterable" | Throw error











section \<open>Recording collaborators\<close>

text \<open>
  The specification observes calls "via a recording store" and "a recording handler". A
  recording collaborator wraps a collaborator working on a state \<open>'s\<close>: it runs on a
  \<open>world\<close>, the state together with the trace of the calls made so far, and appends one
  event, holding the arguments, for every call. The wrapped collaborator cannot touch the
  trace.
\<close>

datatype event =
    HasResource ResourceIdentifier
  | GetRepresentation ResourceIdentifier RepresentationPreferences "Conditions option"
  | AddResource ResourceIdentifier Representation "Conditions option"
  | DeleteResource ResourceIdentifier "Conditions option"
  | ModifyResource ResourceIdentifier Patch "Conditions option"
      "RepresentationPreferences option"
  | SetRepresentation ResourceIdentifier Representation "Conditions option"
      "RepresentationPreferences option"
  | PatcherCall Patch ResourceIdentifier "Representation option"
  | GetData ResourceIdentifier "SecureFlag option"
  | WriteDocument ResourceIdentifier string RepresentationMetadata "SecureFlag option"
  | GetMetadata ResourceIdentifier
  | ConsoleLog error
  | LoggerWarn string
  | ExtractCredentials HttpRequest
  | ExtractModes Operation
  | ReadPermissions CredentialSet ResourceIdentifier "AccessMode list" AttributePermissions
  | Authorize CredentialSet ResourceIdentifier "AccessMode list" PermissionSet
  | OperationHandlerCall OperationHttpHandlerInput
  | StorageSet string bool
  | Readdir string
  | Mkdir string
  | CopyFile string string

record 's world =
  durable :: 's
  trace :: "event list"

definition recording :: "event \<Rightarrow> ('a, 's) promise \<Rightarrow> ('a, 's world) promise" where
  "recording ev f w =
     (case f (durable w) of (r, s) \<Rightarrow> (r, \<lparr>durable = s, trace = trace w @ [ev]\<rparr>))"

definition recordingStore :: "'s ResourceStore \<Rightarrow> 's world ResourceStore" where
  "recordingStore S =
     \<lparr>hasResource = (\<lambda>i. recording (HasResource i) (hasResource S i)),
      getRepresentation = (\<lambda>i p c. recording (GetRepresentation i p c) (getRepresentation S i p c)),
      addResource = (\<lambda>i r c. recording (AddResource i r c) (addResource S i r c)),
      deleteResource = (\<lambda>i c. recording (DeleteResource i c) (deleteResource S i c)),
      modifyResource = (\<lambda>i p c prefs.
         recording (ModifyResource i p c prefs) (modifyResource S i p c prefs)),
      setRepresentation = (\<lambda>i r c prefs.
         recording (SetRepresentation i r c prefs) (setRepresentation S i r c prefs))\<rparr>"

text \<open>
  A recording patcher: the patcher is handed the patch, the identifier and the
  representation, and no store; it computes a representation or rejects.
\<close>

definition recordingPatcher ::
  "(Patch \<Rightarrow> ResourceIdentifier \<Rightarrow> Representation option \<Rightarrow> error + Representation)
    \<Rightarrow> 's world RepresentationPatcher" where
  "recordingPatcher P patch identifier representation =
     recording (PatcherCall patch identifier representation)
       (\<lambda>s. (P patch identifier representation, s))"

definition recordingAccessor :: "'s FileDataAccessor \<Rightarrow> 's world FileDataAccessor" where
  "recordingAccessor A =
     \<lparr>getData = (\<lambda>i opts. recording (GetData i opts) (getData A i opts)),
      writeDocument = (\<lambda>i d md opts.
         recording (WriteDocument i d md opts) (writeDocument A i d md opts)),
      getMetadata = (\<lambda>i. recording (GetMetadata i) (getMetadata A i))\<rparr>"

definition recordingConsole :: "error \<Rightarrow> 's world \<Rightarrow> 's world" where
  "recordingConsole err w = w\<lparr>trace := trace w @ [ConsoleLog err]\<rparr>"

text \<open>The events a run appended to the trace it started with.\<close>

definition newEvents :: "'s world \<Rightarrow> 's world \<Rightarrow> event list" where
  "newEvents w w' = drop (length (trace w)) (trace w')"

fun isStoreEvent :: "event \<Rightarrow> bool" where
  "isStoreEvent (HasResource i) = True"
| "isStoreEvent (GetRepresentation i p c) = True"
| "isStoreEvent (AddResource i r c) = True"
| "isStoreEvent (DeleteResource i c) = True"
| "isStoreEvent (ModifyResource i p c prefs) = True"
| "isStoreEvent (SetRepresentation i r c prefs) = True"
| "isStoreEvent ev = False"

fun isSetRepresentation :: "event \<Rightarrow> bool" where
  "isSetRepresentation (SetRepresentation i r c prefs) = True"
| "isSetRepresentation ev = False"

fun isAccessorEvent :: "event \<Rightarrow> bool" where
  "isAccessorEvent (GetData i opts) = True"
| "isAccessorEvent (WriteDocument i d md opts) = True"
| "isAccessorEvent (GetMetadata i) = True"
| "isAccessorEvent ev = False"

text \<open>
  The four stages of the pipeline hold only configuration: each computes its result, or
  its error, from its input. The next handler works on the state.
\<close>

record 's PipelineStages =
  extractCredentials :: "HttpRequest \<Rightarrow> error + CredentialSet"
  extractModes :: "Operation \<Rightarrow> error + AccessMode list"
  readPermissions ::
    "CredentialSet \<Rightarrow> ResourceIdentifier \<Rightarrow> AccessMode list \<Rightarrow> AttributePermissions
      \<Rightarrow> error + PermissionSet \<times> AttributePermissions"
  authorize ::
    "CredentialSet \<Rightarrow> ResourceIdentifier \<Rightarrow> AccessMode list \<Rightarrow> PermissionSet \<Rightarrow> error + unit"
  nextHandler :: "OperationHttpHandlerInput \<Rightarrow> (ResponseDescription, 's) promise"

definition recordingArgs :: "'s PipelineStages \<Rightarrow> 's world AuthorizingHttpHandlerArgs" where
  "recordingArgs St =
     \<lparr>credentialsExtractor = (\<lambda>req.
         recording (ExtractCredentials req) (\<lambda>s. (extractCredentials St req, s))),
      modesExtractor = (\<lambda>op. recording (ExtractModes op) (\<lambda>s. (extractModes St op, s))),
      permissionReader = (\<lambda>cr i modes ap.
         recording (ReadPermissions cr i modes ap) (\<lambda>s. (readPermissions St cr i modes ap, s))),
      authorizer = (\<lambda>cr i modes ps.
         recording (Authorize cr i modes ps) (\<lambda>s. (authorize St cr i modes ps, s))),
      operationHandler = (\<lambda>inp. recording (OperationHandlerCall inp) (nextHandler St inp))\<rparr>"







fun thrown :: "'a AsyncIterable \<Rightarrow> error option" where
  "thrown Done = None"
| "thrown (Throw err) = Some err"
| "thrown (Yield x rest) = thrown rest"

section \<open>Recorded traces\<close>

text \<open>
  What a recording accessor records while the two loops and the block run: one
  \<open>GetData\<close> and, if the read succeeds, one \<open>WriteDocument\<close> for each path, up to the
  first rejected call. An event \<open>touches\<close> a list of paths when it is a read or a write
  of a document named in the list.
\<close>

fun touches :: "string list \<Rightarrow> event \<Rightarrow> bool" where
  "touches ps (GetData i opts) = (path i \<in> set ps)"
| "touches ps (WriteDocument i d md opts) = (path i \<in> set ps)"
| "touches ps ev = False"

fun rewriteEvents ::
  "'s FileDataAccessor \<Rightarrow> SecureFlag option \<Rightarrow> SecureFlag option \<Rightarrow> string list \<Rightarrow> 's
    \<Rightarrow> event list" where
  "rewriteEvents A ro wo [] s = []"
| "rewriteEvents A ro wo (p # ps) s =
     GetData \<lparr>path = p\<rparr> ro #
     (case getData A \<lparr>path = p\<rparr> ro s of
        (Inl err, s1) \<Rightarrow> []
      | (Inr dat, s1) \<Rightarrow>
          WriteDocument \<lparr>path = p\<rparr> dat (new_RepresentationMetadata \<lparr>path = p\<rparr>) wo #
          (case writeDocument A \<lparr>path = p\<rparr> dat (new_RepresentationMetadata \<lparr>path = p\<rparr>) wo s1 of
             (Inl err, s2) \<Rightarrow> []
           | (Inr u, s2) \<Rightarrow> rewriteEvents A ro wo ps s2))"

definition secureOffEvents :: "'s FileDataAccessor \<Rightarrow> Patch \<Rightarrow> 's \<Rightarrow> event list" where
  "secureOffEvents A patch s =
     (case algebra patch of
        None \<Rightarrow> []
      | Some alg \<Rightarrow>
          rewriteEvents A (Some \<lparr>enable = 0\<rparr>) None (secureOffObjects (deleteData alg)) s @
          (case rewriteDocuments A (Some \<lparr>enable = 0\<rparr>) None (secureOffObjects (deleteData alg)) s of
             (Inl err, s1) \<Rightarrow> []
           | (Inr u, s1) \<Rightarrow>
               rewriteEvents A None (Some \<lparr>enable = 0\<rparr>) (secureOffObjects (insertData alg)) s1))"

fun isPatcherCall :: "event \<Rightarrow> bool" where
  "isPatcherCall (PatcherCall p i rep) = True"
| "isPatcherCall ev = False"

text \<open>
  What a recording accessor records while the secure-flag block runs: the read of the
  parent's metadata, when the target is not the root and has a parent.
\<close>

definition secureFlagEvents :: "IdentifierStrategy \<Rightarrow> Operation \<Rightarrow> event list" where
  "secureFlagEvents identifierStrategy op =
     (if \<not> isRootContainer identifierStrategy (target op) then
        (case getParentContainer identifierStrategy (target op) of
           Inl err \<Rightarrow> []
         | Inr parent \<Rightarrow> [GetMetadata parent])
      else [])"

text \<open>The operation after authorization, before the secure-flag block.\<close>

definition authorizedOperation ::
  "Operation \<Rightarrow> PermissionSet \<Rightarrow> AttributePermissions \<Rightarrow> Operation" where
  "authorizedOperation op ps ap = op\<lparr>permissionSet := Some ps, attributePermissions := Some ap\<rparr>"

text \<open>The operation as the secure-flag block leaves it, and what the console gets.\<close>

definition securedOperation ::
  "IdentifierStrategy \<Rightarrow> 's FileDataAccessor \<Rightarrow> Operation \<Rightarrow> 's \<Rightarrow> Operation" where
  "securedOperation identifierStrategy A op s =
     (case fst (secureFlagBody identifierStrategy A op s) of Inl err \<Rightarrow> op | Inr op' \<Rightarrow> op')"

definition consoleEvents :: "error + 'a \<Rightarrow> event list" where
  "consoleEvents r = (case r of Inl err \<Rightarrow> [ConsoleLog err] | Inr x \<Rightarrow> [])"

fun isOperationHandlerCall :: "event \<Rightarrow> bool" where
  "isOperationHandlerCall (OperationHandlerCall inp) = True"
| "isOperationHandlerCall ev = False"







section \<open>Test doubles\<close>

text \<open>
  Collaborators for running the handlers on concrete inputs. The state is a list of
  documents, path and content, shared by the store and the file accessor, as the files
  under the server's root are.
\<close>

type_synonym documents = "(string \<times> string) list"

definition writeContent :: "string \<Rightarrow> string \<Rightarrow> documents \<Rightarrow> documents" where
  "writeContent p d s = (p, d) # filter (\<lambda>entry. fst entry \<noteq> p) s"

definition memoryStore :: "documents ResourceStore" where
  "memoryStore =
     \<lparr>hasResource = (\<lambda>i s. (Inr (map_of s (path i) \<noteq> None), s)),
      getRepresentation = (\<lambda>i prefs c s.
         case map_of s (path i) of
           None \<Rightarrow> (Inl (HttpError NotFound (path i)), s)
         | Some d \<Rightarrow> (Inr \<lparr>metadata = new_RepresentationMetadata i, data = d\<rparr>, s)),
      addResource = (\<lambda>i r c s.
         (Inr \<lparr>path = path i @ ''new''\<rparr>, writeContent (path i @ ''new'') (data r) s)),
      deleteResource = (\<lambda>i c s. (Inr [i], filter (\<lambda>entry. fst entry \<noteq> path i) s)),
      modifyResource = (\<lambda>i p c prefs s. (Inl (HttpError InternalError ''no patcher''), s)),
      setRepresentation = (\<lambda>i r c prefs s. (Inr [i], writeContent (path i) (data r) s))\<rparr>"

text \<open>A store that rejects every call.\<close>

definition brokenStore :: "error \<Rightarrow> documents ResourceStore" where
  "brokenStore err =
     \<lparr>hasResource = (\<lambda>i s. (Inl err, s)),
      getRepresentation = (\<lambda>i prefs c s. (Inl err, s)),
      addResource = (\<lambda>i r c s. (Inl err, s)),
      deleteResource = (\<lambda>i c s. (Inl err, s)),
      modifyResource = (\<lambda>i p c prefs s. (Inl err, s)),
      setRepresentation = (\<lambda>i r c prefs s. (Inl err, s))\<rparr>"


text \<open>
  A file accessor on the same documents. The metadata of a container lists the content of
  its document as the one value of the predicate \<open>secureOff\<close>.
\<close>

definition memoryAccessor :: "documents FileDataAccessor" where
  "memoryAccessor =
     \<lparr>getData = (\<lambda>i opts s.
         case map_of s (path i) of
           None \<Rightarrow> (Inl (HttpError NotFound (path i)), s)
         | Some d \<Rightarrow> (Inr d, s)),
      writeDocument = (\<lambda>i d md opts s. (Inr (), writeContent (path i) d s)),
      getMetadata = (\<lambda>i s.
         case map_of s (path i) of
           None \<Rightarrow> (Inl (HttpError NotFound (path i)), s)
         | Some d \<Rightarrow> (Inr \<lparr>md_identifier = i, md_quads = [(secureOff, d)]\<rparr>, s))\<rparr>"

text \<open>A patcher that appends the content of the patch, and one that rejects every patch.\<close>

definition appendPatcher ::
  "Patch \<Rightarrow> ResourceIdentifier \<Rightarrow> Representation option \<Rightarrow> error + Representation" where
  "appendPatcher p i rep =
     (case rep of
        None \<Rightarrow> Inr \<lparr>metadata = new_RepresentationMetadata i, data = data p\<rparr>
      | Some r \<Rightarrow> Inr (r\<lparr>data := data r @ data p\<rparr>))"

definition rejectingPatcher ::
  "Patch \<Rightarrow> ResourceIdentifier \<Rightarrow> Representation option \<Rightarrow> error + Representation" where
  "rejectingPatcher p i rep = Inl (HttpError ValidationError ''bad patch'')"

text \<open>Concrete inputs: three documents, a patch without algebra and a SPARQL update patch.\<close>

definition demoDocuments :: documents where
  "demoDocuments =
     [(''http://localhost:3001/note'', ''a''),
      (''http://localhost:3001/private'', ''s''),
      (''http://localhost:3001/'', ''http://localhost:3001/private'')]"

definition demoWorld :: "documents world" where
  "demoWorld = \<lparr>durable = demoDocuments, trace = []\<rparr>"

definition notePatch :: Patch where
  "notePatch =
     \<lparr>metadata = new_RepresentationMetadata \<lparr>path =
         ''http://localhost:3001/note''\<rparr>, data = ''b'', algebra = None\<rparr>"

definition secureOffPatch :: Patch where
  "secureOffPatch =
     \<lparr>metadata = new_RepresentationMetadata \<lparr>path =
         ''http://localhost:3001/''\<rparr>, data = ''c'',
      algebra = Some
        \<lparr>algebra_updates = None,
         algebra_delete = None,
         algebra_insert = Some
           [\<lparr>subject = \<lparr>termType = ''NamedNode'', term_value =
               ''http://localhost:3001/''\<rparr>,
             predicate = \<lparr>termType = ''NamedNode'', term_value = secureOff\<rparr>,
             object = \<lparr>termType = ''NamedNode'', term_value =
                 ''http://localhost:3001/private''\<rparr>\<rparr>]\<rparr>\<rparr>"







text \<open>
  A pipeline for concrete runs. The identifier strategy is the one the handler constructs,
  \<^verbatim>\<open>new SingleRootIdentifierStrategy('http://localhost:3001')\<close>: the base gets one trailing
  slash, the root container is the base itself, an identifier that does not start with the
  base has no parent (the call throws), nor has the root, and the parent of any other
  identifier is its path up to the last slash before its last segment. Credentials come
  from the \<open>authorization\<close> header; reading is required and granted to all; the authorizer
  wants every required mode granted; the next handler answers with the content of the
  target.
\<close>

definition ensureTrailingSlash :: "string \<Rightarrow> string" where
  "ensureTrailingSlash p = rev (dropWhile (\<lambda>c. c = CHR ''/'') (rev p)) @ ''/''"

definition singleRootStrategy :: "string \<Rightarrow> IdentifierStrategy" where
  "singleRootStrategy base =
     \<lparr>isRootContainer = (\<lambda>i. path i = ensureTrailingSlash base),
      getParentContainer = (\<lambda>i.
         if take (length (ensureTrailingSlash base)) (path i) \<noteq> ensureTrailingSlash base
         then Inl (HttpError InternalError (path i @ '' is outside the identifier space''))
         else if path i = ensureTrailingSlash base
         then Inl (HttpError InternalError (path i @ '' is a root container''))
         else Inr \<lparr>path = rev (dropWhile (\<lambda>c. c \<noteq> CHR ''/'')
                               (dropWhile (\<lambda>c. c = CHR ''/'') (rev (path i))))\<rparr>)\<rparr>"

definition demoStrategy :: IdentifierStrategy where
  "demoStrategy = singleRootStrategy ''http://localhost:3001''"

definition demoStages :: "documents PipelineStages" where
  "demoStages =
     \<lparr>extractCredentials = (\<lambda>req.
         Inr \<lparr>agent = map_of (headers req) ''authorization'', client = None, issuer = None\<rparr>),
      extractModes = (\<lambda>op. Inr [Read]),
      readPermissions = (\<lambda>cr i modes ap. Inr ([(Read, True)], ap)),
      authorize = (\<lambda>cr i modes ps.
         if list_all (\<lambda>m. (m, True) \<in> set ps) modes then Inr ()
         else Inl (HttpError (case agent cr of None \<Rightarrow> Unauthorized | Some a \<Rightarrow> Forbidden)
                     ''denied'')),
      nextHandler = (\<lambda>inp s.
         (Inr \<lparr>statusCode = 200, response_data = map_of s (path (target (operation inp)))\<rparr>, s))\<rparr>"

definition demoInput :: OperationHttpHandlerInput where
  "demoInput =
     \<lparr>request = \<lparr>request_method = ''GET'', url = ''/note'', headers = []\<rparr>,
      operation =
        \<lparr>operation_method = ''GET'',
         target = \<lparr>path = ''http://localhost:3001/note''\<rparr>,
         preferences = emptyPreferences,
         conditions = None,
         body = \<lparr>metadata = new_RepresentationMetadata \<lparr>path =
             ''http://localhost:3001/note''\<rparr>, data = []\<rparr>,
         permissionSet = None,
         attributePermissions = None\<rparr>\<rparr>"

definition demoPipeline ::
  "documents PipelineStages \<Rightarrow> documents world
    \<Rightarrow> (error + ResponseDescription) \<times> documents world" where
  "demoPipeline St w =
     AuthorizingHttpHandler_handle (recordingArgs St) demoStrategy
       (recordingAccessor memoryAccessor) recordingConsole demoInput w"

definition emptyWorld :: "documents world" where
  "emptyWorld = \<lparr>durable = [], trace = []\<rparr>"

text \<open>A GET request for a path, and the pipeline run on it.\<close>

definition demoGet :: "string \<Rightarrow> OperationHttpHandlerInput" where
  "demoGet p =
     \<lparr>request = \<lparr>request_method = ''GET'', url = p, headers = []\<rparr>,
      operation =
        \<lparr>operation_method = ''GET'',
         target = \<lparr>path = p\<rparr>,
         preferences = emptyPreferences,
         conditions = None,
         body = \<lparr>metadata = new_RepresentationMetadata \<lparr>path = p\<rparr>, data = []\<rparr>,
         permissionSet = None,
         attributePermissions = None\<rparr>\<rparr>"

definition demoAuthorized ::
  "documents world \<Rightarrow> string \<Rightarrow> (error + ResponseDescription) \<times> documents world" where
  "demoAuthorized w p =
     AuthorizingHttpHandler_handle (recordingArgs demoStages) demoStrategy
       (recordingAccessor memoryAccessor) recordingConsole (demoGet p) w"

text \<open>The operation of \<open>demoGet\<close> with the permissions that \<open>demoStages\<close> read.\<close>

definition demoPermitted :: "string \<Rightarrow> Operation" where
  "demoPermitted p =
     (operation (demoGet p))
       \<lparr>permissionSet := Some [(Read, True)],
        attributePermissions := Some \<lparr>readOnly = [], hide = []\<rparr>\<rparr>"







section \<open>Properties of PassthroughStore\<close>

lemma recording_trace: "trace (snd (recording ev f w)) = trace w @ [ev]"
  by (simp add: recording_def split: prod.splits)

text \<open>
  Claim C5. A \<^verbatim>\<open>PassthroughStore\<close> wrapping a source store behaves as the source: each of
  the six operations run on any arguments and any state gives the result and the state that
  the source's operation gives on the same arguments; and a recording source sees exactly
  one call of the corresponding operation, with the arguments unchanged.
\<close>

theorem PassthroughStore_delegates:
  "PassthroughStore S = S
   \<and> hasResource (PassthroughStore S) i w = hasResource S i w
   \<and> getRepresentation (PassthroughStore S) i prefs c w = getRepresentation S i prefs c w
   \<and> addResource (PassthroughStore S) i r c w = addResource S i r c w
   \<and> deleteResource (PassthroughStore S) i c w = deleteResource S i c w
   \<and> modifyResource (PassthroughStore S) i p c oprefs w = modifyResource S i p c oprefs w
   \<and> setRepresentation (PassthroughStore S) i r c oprefs w = setRepresentation S i r c oprefs w
   \<and> trace (snd (hasResource (PassthroughStore (recordingStore R)) i v))
       = trace v @ [HasResource i]
   \<and> trace (snd (getRepresentation (PassthroughStore (recordingStore R)) i prefs c v))
       = trace v @ [GetRepresentation i prefs c]
   \<and> trace (snd (addResource (PassthroughStore (recordingStore R)) i r c v))
       = trace v @ [AddResource i r c]
   \<and> trace (snd (deleteResource (PassthroughStore (recordingStore R)) i c v))
       = trace v @ [DeleteResource i c]
   \<and> trace (snd (modifyResource (PassthroughStore (recordingStore R)) i p c oprefs v))
       = trace v @ [ModifyResource i p c oprefs]
   \<and> trace (snd (setRepresentation (PassthroughStore (recordingStore R)) i r c oprefs v))
       = trace v @ [SetRepresentation i r c oprefs]"
  by (simp add: PassthroughStore_def recordingStore_def recording_trace)

section \<open>Properties of RepresentationPatchHandler\<close>

text \<open>
  The outcomes of the handler for arbitrary collaborators, which may change the state: a
  rejected pre-read or patcher call ends the handler with the state that call leaves, and
  otherwise the handler is the commit, run after the block in between.
\<close>

lemma handle_pre_read_rejected:
  assumes "getRepresentation source identifier emptyPreferences None w = (Inl e, w1)"
    and "\<not> NotFoundHttpError_isInstance e"
  shows "RepresentationPatchHandler_handle patcher accessor console_log source patch identifier
           prefs w = (Inl e, w1)"
  using assms by (simp add: RepresentationPatchHandler_handle_def getOriginal_def)

lemma handle_patcher_rejected:
  assumes "getOriginal source identifier w = (Inr representation, w1)"
    and "patcher patch identifier representation w1 = (Inl e, w2)"
  shows "RepresentationPatchHandler_handle patcher accessor console_log source patch identifier
           prefs w = (Inl e, w2)"
  using assms by (simp add: RepresentationPatchHandler_handle_def)

lemma handle_commits:
  assumes "getOriginal source identifier w = (Inr representation, w1)"
    and "patcher patch identifier representation w1 = (Inr patched, w2)"
  shows "RepresentationPatchHandler_handle patcher accessor console_log source patch identifier
           prefs w =
         setRepresentation source identifier patched None prefs
           (secureOffBlock accessor console_log patch w2)"
  using assms by (simp add: RepresentationPatchHandler_handle_def)

lemma recording_apply:
  "recording ev f w =
     (fst (f (durable w)), \<lparr>durable = snd (f (durable w)), trace = trace w @ [ev]\<rparr>)"
  by (simp add: recording_def split: prod.splits)

lemma getOriginal_recording:
  "getOriginal (recordingStore S) i w =
     (fst (getOriginal S i (durable w)),
      \<lparr>durable = snd (getOriginal S i (durable w)),
       trace = trace w @ [GetRepresentation i emptyPreferences None]\<rparr>)"
  by (simp add: getOriginal_def recordingStore_def recording_apply
           split: prod.splits sum.splits)

lemma getOriginal_state:
  "snd (getOriginal S i s) = snd (getRepresentation S i emptyPreferences None s)"
  by (simp add: getOriginal_def split: prod.splits sum.splits)

lemma recordingAccessor_sel:
  "getData (recordingAccessor A) i opts = recording (GetData i opts) (getData A i opts)"
  "writeDocument (recordingAccessor A) i d md opts =
     recording (WriteDocument i d md opts) (writeDocument A i d md opts)"
  "getMetadata (recordingAccessor A) i = recording (GetMetadata i) (getMetadata A i)"
  by (simp_all add: recordingAccessor_def)

lemma recordingStore_sel:
  "hasResource (recordingStore S) i = recording (HasResource i) (hasResource S i)"
  "getRepresentation (recordingStore S) i p c =
     recording (GetRepresentation i p c) (getRepresentation S i p c)"
  "addResource (recordingStore S) i r c = recording (AddResource i r c) (addResource S i r c)"
  "deleteResource (recordingStore S) i c = recording (DeleteResource i c) (deleteResource S i c)"
  "modifyResource (recordingStore S) i pt c prefs =
     recording (ModifyResource i pt c prefs) (modifyResource S i pt c prefs)"
  "setRepresentation (recordingStore S) i r c prefs =
     recording (SetRepresentation i r c prefs) (setRepresentation S i r c prefs)"
  by (simp_all add: recordingStore_def)

lemma rewriteDocuments_recording:
  "rewriteDocuments (recordingAccessor A) ro wo ps w =
     (fst (rewriteDocuments A ro wo ps (durable w)),
      \<lparr>durable = snd (rewriteDocuments A ro wo ps (durable w)),
       trace = trace w @ rewriteEvents A ro wo ps (durable w)\<rparr>)"
proof (induction ps arbitrary: w)
  case Nil
  show ?case by simp
next
  case (Cons p ps)
  show ?case
    by (simp add: Cons.IH recordingAccessor_sel recording_apply split: prod.splits sum.splits)
qed

lemma touches_mono: "touches ps e \<Longrightarrow> set ps \<subseteq> set qs \<Longrightarrow> touches qs e"
  by (cases e) auto

lemma rewriteEvents_touch: "e \<in> set (rewriteEvents A ro wo ps s) \<Longrightarrow> touches ps e"
proof (induction ps arbitrary: s)
  case Nil
  then show ?case by simp
next
  case (Cons p ps)
  have step: "\<And>s'. e \<in> set (rewriteEvents A ro wo ps s') \<Longrightarrow> touches (p # ps) e"
    using Cons.IH touches_mono by (metis set_subset_Cons)
  from Cons.prems show ?case
    by (auto split: prod.splits sum.splits dest: step)
qed

lemma rewriteEvents_accessor: "e \<in> set (rewriteEvents A ro wo ps s) \<Longrightarrow> isAccessorEvent e"
  by (induction ps arbitrary: s) (auto split: prod.splits sum.splits)

lemma secureOffBody_recording:
  "secureOffBody (recordingAccessor A) patch w =
     (fst (secureOffBody A patch (durable w)),
      \<lparr>durable = snd (secureOffBody A patch (durable w)),
       trace = trace w @ secureOffEvents A patch (durable w)\<rparr>)"
  by (simp add: secureOffBody_def secureOffEvents_def rewriteDocuments_recording
           split: option.splits prod.splits sum.splits)

lemma secureOffBlock_recording:
  "secureOffBlock (recordingAccessor A) recordingConsole patch w =
     \<lparr>durable = snd (secureOffBody A patch (durable w)),
      trace = trace w @ secureOffEvents A patch (durable w) @
        (case fst (secureOffBody A patch (durable w)) of
           Inl err \<Rightarrow> [ConsoleLog err] | Inr u \<Rightarrow> [])\<rparr>"
  by (simp add: secureOffBlock_def secureOffBody_recording recordingConsole_def
           split: prod.splits sum.splits)

text \<open>
  The handler run with recording collaborators: the result, the state and the trace in
  each of its three outcomes.
\<close>

lemma handle_recording:
  "RepresentationPatchHandler_handle (recordingPatcher P) (recordingAccessor A) recordingConsole
      (recordingStore S) p i prefs w =
     (case getOriginal S i (durable w) of
        (Inl err, s1) \<Rightarrow>
          (Inl err,
           \<lparr>durable = s1, trace = trace w @ [GetRepresentation i emptyPreferences None]\<rparr>)
      | (Inr rep, s1) \<Rightarrow>
          (case P p i rep of
             Inl err \<Rightarrow>
               (Inl err,
                \<lparr>durable = s1,
                 trace = trace w @ [GetRepresentation i emptyPreferences None, PatcherCall p i rep]\<rparr>)
           | Inr patched \<Rightarrow>
               (fst (setRepresentation S i patched None prefs (snd (secureOffBody A p s1))),
                \<lparr>durable = snd (setRepresentation S i patched None prefs (snd (secureOffBody A p s1))),
                 trace = trace w @ [GetRepresentation i emptyPreferences None, PatcherCall p i rep]
                   @ secureOffEvents A p s1
                   @ (case fst (secureOffBody A p s1) of Inl err \<Rightarrow> [ConsoleLog err] | Inr u \<Rightarrow> [])
                   @ [SetRepresentation i patched None prefs]\<rparr>)))"
  by (simp add: RepresentationPatchHandler_handle_def getOriginal_recording recordingPatcher_def
        recording_apply secureOffBlock_recording recordingStore_sel
      split: prod.splits sum.splits)

lemma touches_accessor: "touches ps e \<Longrightarrow> isAccessorEvent e"
  by (cases e) auto

lemma accessor_not_other:
  "isAccessorEvent e \<Longrightarrow> \<not> isStoreEvent e \<and> \<not> isSetRepresentation e \<and> \<not> isPatcherCall e"
  by (cases e) auto

lemma secureOffEvents_touch:
  assumes "e \<in> set (secureOffEvents A p s)"
  shows "\<exists>alg. algebra p = Some alg
       \<and> touches (secureOffObjects (deleteData alg) @ secureOffObjects (insertData alg)) e"
proof (cases "algebra p")
  case None
  with assms show ?thesis by (simp add: secureOffEvents_def)
next
  case (Some alg)
  let ?ds = "secureOffObjects (deleteData alg)" and ?is = "secureOffObjects (insertData alg)"
  from assms Some have "touches ?ds e \<or> touches ?is e"
    by (auto simp: secureOffEvents_def split: prod.splits sum.splits dest: rewriteEvents_touch)
  then have "touches (?ds @ ?is) e"
    by (auto elim: touches_mono)
  with Some show ?thesis by simp
qed

lemma secureOffEvents_accessor:
  assumes "e \<in> set (secureOffEvents A p s)"
  shows "isAccessorEvent e"
proof -
  from secureOffEvents_touch [OF assms] obtain ps where "touches ps e" by blast
  then show ?thesis by (rule touches_accessor)
qed

lemma filter_secureOffEvents:
  "filter isStoreEvent (secureOffEvents A p s) = []"
  "filter isSetRepresentation (secureOffEvents A p s) = []"
  "filter isPatcherCall (secureOffEvents A p s) = []"
  "filter isAccessorEvent (secureOffEvents A p s) = secureOffEvents A p s"
proof -
  have acc: "\<forall>e \<in> set (secureOffEvents A p s). isAccessorEvent e"
    by (simp add: secureOffEvents_accessor)
  then show "filter isAccessorEvent (secureOffEvents A p s) = secureOffEvents A p s"
    by (simp add: filter_id_conv)
  from acc have no: "\<forall>e \<in> set (secureOffEvents A p s).
      \<not> isStoreEvent e \<and> \<not> isSetRepresentation e \<and> \<not> isPatcherCall e"
    by (simp add: accessor_not_other)
  from no show "filter isStoreEvent (secureOffEvents A p s) = []"
    by (simp add: filter_empty_conv)
  from no show "filter isSetRepresentation (secureOffEvents A p s) = []"
    by (simp add: filter_empty_conv)
  from no show "filter isPatcherCall (secureOffEvents A p s) = []"
    by (simp add: filter_empty_conv)
qed

lemma filter_console:
  "filter isStoreEvent (case r of Inl err \<Rightarrow> [ConsoleLog err] | Inr u \<Rightarrow> []) = []"
  "filter isSetRepresentation (case r of Inl err \<Rightarrow> [ConsoleLog err] | Inr u \<Rightarrow> []) = []"
  "filter isPatcherCall (case r of Inl err \<Rightarrow> [ConsoleLog err] | Inr u \<Rightarrow> []) = []"
  "filter isAccessorEvent (case r of Inl err \<Rightarrow> [ConsoleLog err] | Inr u \<Rightarrow> []) = []"
  by (simp_all split: sum.splits)

lemmas demo_defs =
  demoWorld_def demoDocuments_def notePatch_def secureOffPatch_def memoryStore_def
  brokenStore_def memoryAccessor_def appendPatcher_def rejectingPatcher_def writeContent_def
  new_RepresentationMetadata_def emptyPreferences_def NotFoundHttpError_isInstance_def

text \<open>
  Claim C1. If the pre-read \<^verbatim>\<open>getRepresentation(identifier, {})\<close> rejects with an error that
  is not a \<^verbatim>\<open>NotFoundHttpError\<close>, or the patcher rejects, then the handler rejects, no
  \<^verbatim>\<open>setRepresentation\<close> is recorded, the pre-read is the only call recorded on the store,
  the file accessor is not called, and the state is the one the pre-read alone leaves: it is
  unchanged whenever the store's pre-read, a read, leaves it unchanged.
\<close>

theorem patch_failure_never_commits:
  assumes run: "RepresentationPatchHandler_handle (recordingPatcher P) (recordingAccessor A)
                  recordingConsole (recordingStore S) p i prefs w = (res, w')"
    and failure:
      "(\<exists>e s1. getRepresentation S i emptyPreferences None (durable w) = (Inl e, s1)
               \<and> \<not> NotFoundHttpError_isInstance e)
       \<or> (\<exists>rep s1 e. getOriginal S i (durable w) = (Inr rep, s1) \<and> P p i rep = Inl e)"
  shows "(\<exists>e. res = Inl e)
       \<and> filter isSetRepresentation (newEvents w w') = []
       \<and> filter isStoreEvent (newEvents w w') = [GetRepresentation i emptyPreferences None]
       \<and> filter isAccessorEvent (newEvents w w') = []
       \<and> durable w' = snd (getRepresentation S i emptyPreferences None (durable w))
       \<and> (snd (getRepresentation S i emptyPreferences None (durable w)) = durable w
            \<longrightarrow> durable w' = durable w)"
proof -
  from failure show ?thesis
  proof
    assume "\<exists>e s1. getRepresentation S i emptyPreferences None (durable w) = (Inl e, s1)
               \<and> \<not> NotFoundHttpError_isInstance e"
    then obtain e s1 where pre: "getRepresentation S i emptyPreferences None (durable w) = (Inl e, s1)"
      and nf: "\<not> NotFoundHttpError_isInstance e" by blast
    then have orig: "getOriginal S i (durable w) = (Inl e, s1)"
      by (simp add: getOriginal_def)
    from run show ?thesis
      by (auto simp: handle_recording orig pre newEvents_def)
  next
    assume "\<exists>rep s1 e. getOriginal S i (durable w) = (Inr rep, s1) \<and> P p i rep = Inl e"
    then obtain rep s1 e where orig: "getOriginal S i (durable w) = (Inr rep, s1)"
      and pf: "P p i rep = Inl e" by blast
    have st: "snd (getRepresentation S i emptyPreferences None (durable w)) = s1"
      using orig getOriginal_state [of S i "durable w"] by simp
    from run show ?thesis
      by (auto simp: handle_recording orig pf newEvents_def st)
  qed
qed

theorem patch_failure_never_commits_witness:
  "fst (RepresentationPatchHandler_handle (recordingPatcher rejectingPatcher)
           (recordingAccessor memoryAccessor) recordingConsole (recordingStore memoryStore)
           notePatch \<lparr>path = ''http://localhost:3001/note''\<rparr> None demoWorld)
     = Inl (HttpError ValidationError ''bad patch'')
   \<and> filter isSetRepresentation (newEvents demoWorld
        (snd (RepresentationPatchHandler_handle (recordingPatcher rejectingPatcher)
           (recordingAccessor memoryAccessor) recordingConsole (recordingStore memoryStore)
           notePatch \<lparr>path = ''http://localhost:3001/note''\<rparr> None demoWorld))) = []
   \<and> durable (snd (RepresentationPatchHandler_handle (recordingPatcher rejectingPatcher)
           (recordingAccessor memoryAccessor) recordingConsole (recordingStore memoryStore)
           notePatch \<lparr>path = ''http://localhost:3001/note''\<rparr> None demoWorld)) = demoDocuments
   \<and> fst (RepresentationPatchHandler_handle (recordingPatcher appendPatcher)
           (recordingAccessor memoryAccessor) recordingConsole
           (recordingStore (brokenStore (HttpError InternalError ''disk'')))
           notePatch \<lparr>path = ''http://localhost:3001/note''\<rparr> None demoWorld)
     = Inl (HttpError InternalError ''disk'')
   \<and> filter isSetRepresentation (newEvents demoWorld
        (snd (RepresentationPatchHandler_handle (recordingPatcher appendPatcher)
           (recordingAccessor memoryAccessor) recordingConsole
           (recordingStore (brokenStore (HttpError InternalError ''disk'')))
           notePatch \<lparr>path = ''http://localhost:3001/note''\<rparr> None demoWorld))) = []"
proof -
  let ?run1 = "RepresentationPatchHandler_handle (recordingPatcher rejectingPatcher)
           (recordingAccessor memoryAccessor) recordingConsole (recordingStore memoryStore)
           notePatch \<lparr>path = ''http://localhost:3001/note''\<rparr> None demoWorld"
  let ?run2 = "RepresentationPatchHandler_handle (recordingPatcher appendPatcher)
           (recordingAccessor memoryAccessor) recordingConsole
           (recordingStore (brokenStore (HttpError InternalError ''disk'')))
           notePatch \<lparr>path = ''http://localhost:3001/note''\<rparr> None demoWorld"
  have r1: "?run1 = (fst ?run1, snd ?run1)" by simp
  have f1: "(\<exists>e s1. getRepresentation memoryStore \<lparr>path =
      ''http://localhost:3001/note''\<rparr> emptyPreferences None
                (durable demoWorld) = (Inl e, s1) \<and> \<not> NotFoundHttpError_isInstance e)
       \<or> (\<exists>rep s1 e. getOriginal memoryStore \<lparr>path =
           ''http://localhost:3001/note''\<rparr> (durable demoWorld) = (Inr rep, s1)
             \<and> rejectingPatcher notePatch \<lparr>path = ''http://localhost:3001/note''\<rparr>
                 rep = Inl e)"
    by (simp add: getOriginal_def demo_defs)
  have s1: "snd (getRepresentation memoryStore \<lparr>path = ''http://localhost:3001/note''\<rparr>
      emptyPreferences None
                (durable demoWorld)) = demoDocuments"
    by (simp add: demo_defs)
  have e1: "fst ?run1 = Inl (HttpError ValidationError ''bad patch'')"
    by (simp add: handle_recording getOriginal_def demo_defs)
  have r2: "?run2 = (fst ?run2, snd ?run2)" by simp
  have f2: "(\<exists>e s1. getRepresentation (brokenStore (HttpError InternalError ''disk''))
                \<lparr>path = ''http://localhost:3001/note''\<rparr> emptyPreferences None (durable
                    demoWorld) = (Inl e, s1)
                \<and> \<not> NotFoundHttpError_isInstance e)
       \<or> (\<exists>rep s1 e. getOriginal (brokenStore (HttpError InternalError ''disk''))
               \<lparr>path = ''http://localhost:3001/note''\<rparr> (durable demoWorld) = (Inr rep, s1)
             \<and> appendPatcher notePatch \<lparr>path = ''http://localhost:3001/note''\<rparr>
                 rep = Inl e)"
    by (simp add: demo_defs)
  have e2: "fst ?run2 = Inl (HttpError InternalError ''disk'')"
    by (simp add: handle_recording getOriginal_def demo_defs)
  from patch_failure_never_commits [OF r1 f1] patch_failure_never_commits [OF r2 f2] s1 e1 e2
  show ?thesis by simp
qed

text \<open>
  Claim C7. When the pre-read yields a representation or none and the patcher returns
  \<open>patched\<close>, exactly one \<^verbatim>\<open>setRepresentation\<close> is recorded, as the last call:
  \<^verbatim>\<open>setRepresentation(identifier, patched, undefined, preferences)\<close>, with the patcher's output,
  no conditions and the caller's preferences; the handler returns the result of that call
  and leaves the state that call leaves.
\<close>

theorem patch_commit_call:
  assumes pre: "getOriginal S i (durable w) = (Inr rep, s1)"
    and patched: "P p i rep = Inr patched"
    and run: "RepresentationPatchHandler_handle (recordingPatcher P) (recordingAccessor A)
                  recordingConsole (recordingStore S) p i prefs w = (res, w')"
  shows "filter isSetRepresentation (newEvents w w') = [SetRepresentation i patched None prefs]
       \<and> last (trace w') = SetRepresentation i patched None prefs
       \<and> res = fst (setRepresentation S i patched None prefs (snd (secureOffBody A p s1)))
       \<and> durable w' = snd (setRepresentation S i patched None prefs (snd (secureOffBody A p s1)))"
  using run
  by (auto simp: handle_recording pre patched newEvents_def filter_secureOffEvents filter_console)

theorem patch_commit_call_witness:
  "getOriginal memoryStore \<lparr>path = ''http://localhost:3001/note''\<rparr> (durable demoWorld)
     = (Inr (Some \<lparr>metadata = new_RepresentationMetadata \<lparr>path =
         ''http://localhost:3001/note''\<rparr>, data = ''a''\<rparr>),
        demoDocuments)
   \<and> appendPatcher notePatch \<lparr>path = ''http://localhost:3001/note''\<rparr>
        (Some \<lparr>metadata = new_RepresentationMetadata \<lparr>path =
            ''http://localhost:3001/note''\<rparr>, data = ''a''\<rparr>)
     = Inr \<lparr>metadata = new_RepresentationMetadata \<lparr>path =
         ''http://localhost:3001/note''\<rparr>, data = ''ab''\<rparr>
   \<and> filter isSetRepresentation (newEvents demoWorld
        (snd (RepresentationPatchHandler_handle (recordingPatcher appendPatcher)
           (recordingAccessor memoryAccessor) recordingConsole (recordingStore memoryStore)
           notePatch \<lparr>path = ''http://localhost:3001/note''\<rparr> (Some emptyPreferences)
               demoWorld)))
     = [SetRepresentation \<lparr>path = ''http://localhost:3001/note''\<rparr>
          \<lparr>metadata = new_RepresentationMetadata \<lparr>path =
              ''http://localhost:3001/note''\<rparr>, data = ''ab''\<rparr>
          None (Some emptyPreferences)]
   \<and> fst (RepresentationPatchHandler_handle (recordingPatcher appendPatcher)
           (recordingAccessor memoryAccessor) recordingConsole (recordingStore memoryStore)
           notePatch \<lparr>path = ''http://localhost:3001/note''\<rparr> (Some emptyPreferences) demoWorld)
     = Inr [\<lparr>path = ''http://localhost:3001/note''\<rparr>]"
proof -
  let ?run = "RepresentationPatchHandler_handle (recordingPatcher appendPatcher)
           (recordingAccessor memoryAccessor) recordingConsole (recordingStore memoryStore)
           notePatch \<lparr>path = ''http://localhost:3001/note''\<rparr> (Some emptyPreferences) demoWorld"
  let ?rep = "\<lparr>metadata = new_RepresentationMetadata \<lparr>path =
      ''http://localhost:3001/note''\<rparr>, data = ''a''\<rparr>"
  let ?patched = "\<lparr>metadata = new_RepresentationMetadata \<lparr>path =
      ''http://localhost:3001/note''\<rparr>, data = ''ab''\<rparr>"
  have pre: "getOriginal memoryStore \<lparr>path = ''http://localhost:3001/note''\<rparr> (durable demoWorld)
               = (Inr (Some ?rep), demoDocuments)"
    by (simp add: getOriginal_def demo_defs)
  have patched: "appendPatcher notePatch \<lparr>path = ''http://localhost:3001/note''\<rparr> (Some
      ?rep) = Inr ?patched"
    by (simp add: demo_defs)
  have run: "?run = (fst ?run, snd ?run)" by simp
  have body: "secureOffBody memoryAccessor notePatch demoDocuments = (Inr (), demoDocuments)"
    by (simp add: secureOffBody_def notePatch_def)
  from patch_commit_call [OF pre patched run] pre patched body show ?thesis
    by (simp add: memoryStore_def)
qed

text \<open>
  Claim C6. When the pre-read rejects with a \<^verbatim>\<open>NotFoundHttpError\<close>, the handler goes on: the
  patcher is called next, with no representation, the handler rejects only with the
  patcher's own error (or the commit's), and when the patcher returns, the commit is made
  and its result returned. When the pre-read rejects with any other error, the handler
  rejects with that error, unchanged, and the pre-read is the only call made.
\<close>

theorem patch_pre_read_failure:
  assumes pre: "getRepresentation S i emptyPreferences None (durable w) = (Inl e, s1)"
    and run: "RepresentationPatchHandler_handle (recordingPatcher P) (recordingAccessor A)
                recordingConsole (recordingStore S) p i prefs w = (res, w')"
  shows "(NotFoundHttpError_isInstance e \<longrightarrow>
            take 2 (newEvents w w') =
              [GetRepresentation i emptyPreferences None, PatcherCall p i None]
            \<and> (\<forall>e'. P p i None = Inl e' \<longrightarrow> res = Inl e')
            \<and> (\<forall>patched. P p i None = Inr patched \<longrightarrow>
                  last (trace w') = SetRepresentation i patched None prefs
                  \<and> res = fst (setRepresentation S i patched None prefs
                               (snd (secureOffBody A p s1)))))
       \<and> (\<not> NotFoundHttpError_isInstance e \<longrightarrow>
            res = Inl e \<and> durable w' = s1
            \<and> newEvents w w' = [GetRepresentation i emptyPreferences None])"
proof (cases "NotFoundHttpError_isInstance e")
  case True
  with pre have orig: "getOriginal S i (durable w) = (Inr None, s1)"
    by (simp add: getOriginal_def)
  from run True show ?thesis
    by (auto simp: handle_recording orig newEvents_def split: sum.splits)
next
  case False
  with pre have orig: "getOriginal S i (durable w) = (Inl e, s1)"
    by (simp add: getOriginal_def)
  from run False show ?thesis
    by (auto simp: handle_recording orig newEvents_def)
qed

theorem patch_pre_read_failure_witness:
  "getRepresentation memoryStore \<lparr>path = ''http://localhost:3001/new''\<rparr>
      emptyPreferences None (durable demoWorld)
     = (Inl (HttpError NotFound ''http://localhost:3001/new''), demoDocuments)
   \<and> NotFoundHttpError_isInstance (HttpError NotFound ''http://localhost:3001/new'')
   \<and> take 2 (newEvents demoWorld
        (snd (RepresentationPatchHandler_handle (recordingPatcher appendPatcher)
           (recordingAccessor memoryAccessor) recordingConsole (recordingStore memoryStore)
           notePatch \<lparr>path = ''http://localhost:3001/new''\<rparr> None demoWorld)))
     = [GetRepresentation \<lparr>path = ''http://localhost:3001/new''\<rparr> emptyPreferences None,
        PatcherCall notePatch \<lparr>path = ''http://localhost:3001/new''\<rparr> None]
   \<and> fst (RepresentationPatchHandler_handle (recordingPatcher appendPatcher)
           (recordingAccessor memoryAccessor) recordingConsole (recordingStore memoryStore)
           notePatch \<lparr>path = ''http://localhost:3001/new''\<rparr> None demoWorld)
     = Inr [\<lparr>path = ''http://localhost:3001/new''\<rparr>]
   \<and> getRepresentation (brokenStore (HttpError Forbidden ''no'')) \<lparr>path =
       ''http://localhost:3001/new''\<rparr>
        emptyPreferences None (durable demoWorld)
     = (Inl (HttpError Forbidden ''no''), demoDocuments)
   \<and> \<not> NotFoundHttpError_isInstance (HttpError Forbidden ''no'')
   \<and> fst (RepresentationPatchHandler_handle (recordingPatcher appendPatcher)
           (recordingAccessor memoryAccessor) recordingConsole
           (recordingStore (brokenStore (HttpError Forbidden ''no'')))
           notePatch \<lparr>path = ''http://localhost:3001/new''\<rparr> None demoWorld)
     = Inl (HttpError Forbidden ''no'')
   \<and> newEvents demoWorld
        (snd (RepresentationPatchHandler_handle (recordingPatcher appendPatcher)
           (recordingAccessor memoryAccessor) recordingConsole
           (recordingStore (brokenStore (HttpError Forbidden ''no'')))
           notePatch \<lparr>path = ''http://localhost:3001/new''\<rparr> None demoWorld))
     = [GetRepresentation \<lparr>path = ''http://localhost:3001/new''\<rparr> emptyPreferences None]"
proof -
  let ?run1 = "RepresentationPatchHandler_handle (recordingPatcher appendPatcher)
           (recordingAccessor memoryAccessor) recordingConsole (recordingStore memoryStore)
           notePatch \<lparr>path = ''http://localhost:3001/new''\<rparr> None demoWorld"
  let ?run2 = "RepresentationPatchHandler_handle (recordingPatcher appendPatcher)
           (recordingAccessor memoryAccessor) recordingConsole
           (recordingStore (brokenStore (HttpError Forbidden ''no'')))
           notePatch \<lparr>path = ''http://localhost:3001/new''\<rparr> None demoWorld"
  have pre1: "getRepresentation memoryStore \<lparr>path = ''http://localhost:3001/new''\<rparr>
      emptyPreferences None
                (durable demoWorld) = (Inl (HttpError NotFound ''http://localhost:3001/new''), demoDocuments)"
    by (simp add: demo_defs)
  have nf1: "NotFoundHttpError_isInstance (HttpError NotFound ''http://localhost:3001/new'')"
    by (simp add: NotFoundHttpError_isInstance_def)
  have p1: "appendPatcher notePatch \<lparr>path = ''http://localhost:3001/new''\<rparr> None
              = Inr \<lparr>metadata = new_RepresentationMetadata \<lparr>path =
                  ''http://localhost:3001/new''\<rparr>, data = ''b''\<rparr>"
    by (simp add: appendPatcher_def notePatch_def)
  have body: "secureOffBody memoryAccessor notePatch demoDocuments = (Inr (), demoDocuments)"
    by (simp add: secureOffBody_def notePatch_def)
  have run1: "?run1 = (fst ?run1, snd ?run1)" by simp
  have pre2: "getRepresentation (brokenStore (HttpError Forbidden ''no'')) \<lparr>path =
      ''http://localhost:3001/new''\<rparr>
                emptyPreferences None (durable demoWorld)
              = (Inl (HttpError Forbidden ''no''), demoDocuments)"
    by (simp add: demo_defs)
  have nf2: "\<not> NotFoundHttpError_isInstance (HttpError Forbidden ''no'')"
    by (simp add: NotFoundHttpError_isInstance_def)
  have run2: "?run2 = (fst ?run2, snd ?run2)" by simp
  from patch_pre_read_failure [OF pre1 run1] nf1 p1 body
  have a: "take 2 (newEvents demoWorld (snd ?run1))
             = [GetRepresentation \<lparr>path = ''http://localhost:3001/new''\<rparr> emptyPreferences None,
                PatcherCall notePatch \<lparr>path = ''http://localhost:3001/new''\<rparr> None]
           \<and> fst ?run1 = Inr [\<lparr>path = ''http://localhost:3001/new''\<rparr>]"
    by (simp add: memoryStore_def)
  from patch_pre_read_failure [OF pre2 run2] nf2
  have b: "fst ?run2 = Inl (HttpError Forbidden ''no'')
           \<and> newEvents demoWorld (snd ?run2)
               = [GetRepresentation \<lparr>path = ''http://localhost:3001/new''\<rparr>
                   emptyPreferences None]"
    by simp
  from pre1 nf1 a pre2 nf2 b show ?thesis by blast
qed







section \<open>Properties of AuthorizingHttpHandler\<close>

text \<open>
  For arbitrary stages, which may change the state: a rejecting stage ends the handler
  with the error and the state of that stage.
\<close>

lemma authorizing_stage_rejected:
  "credentialsExtractor args (request input) w = (Inl e, w1) \<Longrightarrow>
     AuthorizingHttpHandler_handle args identifierStrategy accessor console_log input w
       = (Inl e, w1)"
  "credentialsExtractor args (request input) w = (Inr cr, w1) \<Longrightarrow>
   modesExtractor args (operation input) w1 = (Inl e, w2) \<Longrightarrow>
     AuthorizingHttpHandler_handle args identifierStrategy accessor console_log input w
       = (Inl e, w2)"
  "credentialsExtractor args (request input) w = (Inr cr, w1) \<Longrightarrow>
   modesExtractor args (operation input) w1 = (Inr modes, w2) \<Longrightarrow>
   permissionReader args cr (target (operation input)) modes \<lparr>readOnly = [], hide = []\<rparr> w2
     = (Inl e, w3) \<Longrightarrow>
     AuthorizingHttpHandler_handle args identifierStrategy accessor console_log input w
       = (Inl e, w3)"
  "credentialsExtractor args (request input) w = (Inr cr, w1) \<Longrightarrow>
   modesExtractor args (operation input) w1 = (Inr modes, w2) \<Longrightarrow>
   permissionReader args cr (target (operation input)) modes \<lparr>readOnly = [], hide = []\<rparr> w2
     = (Inr (ps, ap), w3) \<Longrightarrow>
   authorizer args cr (target (operation input)) modes ps w3 = (Inl e, w4) \<Longrightarrow>
     AuthorizingHttpHandler_handle args identifierStrategy accessor console_log input w
       = (Inl e, w4)"
  by (simp_all add: AuthorizingHttpHandler_handle_def)

lemma recordingArgs_sel:
  "credentialsExtractor (recordingArgs St) req =
     recording (ExtractCredentials req) (\<lambda>s. (extractCredentials St req, s))"
  "modesExtractor (recordingArgs St) op =
     recording (ExtractModes op) (\<lambda>s. (extractModes St op, s))"
  "permissionReader (recordingArgs St) cr i modes ap =
     recording (ReadPermissions cr i modes ap) (\<lambda>s. (readPermissions St cr i modes ap, s))"
  "authorizer (recordingArgs St) cr i modes ps =
     recording (Authorize cr i modes ps) (\<lambda>s. (authorize St cr i modes ps, s))"
  "operationHandler (recordingArgs St) inp =
     recording (OperationHandlerCall inp) (nextHandler St inp)"
  by (simp_all add: recordingArgs_def)

lemma secureFlagBody_recording:
  "secureFlagBody identifierStrategy (recordingAccessor A) op w =
     (fst (secureFlagBody identifierStrategy A op (durable w)),
      \<lparr>durable = snd (secureFlagBody identifierStrategy A op (durable w)),
       trace = trace w @ secureFlagEvents identifierStrategy op\<rparr>)"
  by (simp add: secureFlagBody_def secureFlagEvents_def recordingAccessor_sel recording_apply
        Let_def split: prod.splits sum.splits)

lemma secureFlagBlock_recording:
  "secureFlagBlock identifierStrategy (recordingAccessor A) recordingConsole op w =
     (securedOperation identifierStrategy A op (durable w),
      \<lparr>durable = snd (secureFlagBody identifierStrategy A op (durable w)),
       trace = trace w @ secureFlagEvents identifierStrategy op
         @ consoleEvents (fst (secureFlagBody identifierStrategy A op (durable w)))\<rparr>)"
  by (simp add: secureFlagBlock_def secureFlagBody_recording securedOperation_def
        consoleEvents_def recordingConsole_def split: prod.splits sum.splits)

text \<open>
  The handler run with recording collaborators: the result, the state and the trace in
  each of its five outcomes.
\<close>

lemma authorizing_recording:
  "AuthorizingHttpHandler_handle (recordingArgs St) identifierStrategy (recordingAccessor A)
      recordingConsole input w =
     (case extractCredentials St (request input) of
        Inl err \<Rightarrow>
          (Inl err, \<lparr>durable = durable w,
                     trace = trace w @ [ExtractCredentials (request input)]\<rparr>)
      | Inr cr \<Rightarrow>
     (case extractModes St (operation input) of
        Inl err \<Rightarrow>
          (Inl err, \<lparr>durable = durable w,
                     trace = trace w @ [ExtractCredentials (request input),
                                        ExtractModes (operation input)]\<rparr>)
      | Inr modes \<Rightarrow>
     (case readPermissions St cr (target (operation input)) modes \<lparr>readOnly = [], hide = []\<rparr> of
        Inl err \<Rightarrow>
          (Inl err, \<lparr>durable = durable w,
                     trace = trace w @ [ExtractCredentials (request input),
                                        ExtractModes (operation input),
                                        ReadPermissions cr (target (operation input)) modes
                                          \<lparr>readOnly = [], hide = []\<rparr>]\<rparr>)
      | Inr (ps, ap) \<Rightarrow>
     (case authorize St cr (target (operation input)) modes ps of
        Inl err \<Rightarrow>
          (Inl err, \<lparr>durable = durable w,
                     trace = trace w @ [ExtractCredentials (request input),
                                        ExtractModes (operation input),
                                        ReadPermissions cr (target (operation input)) modes
                                          \<lparr>readOnly = [], hide = []\<rparr>,
                                        Authorize cr (target (operation input)) modes ps]\<rparr>)
      | Inr u \<Rightarrow>
          (let op4 = authorizedOperation (operation input) ps ap;
               body = secureFlagBody identifierStrategy A op4 (durable w);
               inp = input\<lparr>operation := securedOperation identifierStrategy A op4 (durable w)\<rparr>
           in (fst (nextHandler St inp (snd body)),
               \<lparr>durable = snd (nextHandler St inp (snd body)),
                trace = trace w @ [ExtractCredentials (request input),
                                   ExtractModes (operation input),
                                   ReadPermissions cr (target (operation input)) modes
                                     \<lparr>readOnly = [], hide = []\<rparr>,
                                   Authorize cr (target (operation input)) modes ps]
                          @ secureFlagEvents identifierStrategy op4
                          @ consoleEvents (fst body)
                          @ [OperationHandlerCall inp]\<rparr>))))))"
  by (simp add: AuthorizingHttpHandler_handle_def recordingArgs_sel recording_apply
        secureFlagBlock_recording authorizedOperation_def Let_def
      split: prod.splits sum.splits)

lemma demoStrategy_sel:
  "isRootContainer demoStrategy \<lparr>path = ''http://localhost:3001/''\<rparr>"
  "\<not> isRootContainer demoStrategy \<lparr>path = ''http://localhost:3001/note''\<rparr>"
  "getParentContainer demoStrategy \<lparr>path = ''http://localhost:3001/note''\<rparr>
     = Inr \<lparr>path = ''http://localhost:3001/''\<rparr>"
  by (simp_all add: demoStrategy_def singleRootStrategy_def ensureTrailingSlash_def)

lemma demoStages_succeed:
  "extractCredentials demoStages (request demoInput)
     = Inr \<lparr>agent = None, client = None, issuer = None\<rparr>"
  "extractModes demoStages (operation demoInput) = Inr [Read]"
  "readPermissions demoStages \<lparr>agent = None, client = None, issuer = None\<rparr>
     (target (operation demoInput)) [Read] \<lparr>readOnly = [], hide = []\<rparr>
     = Inr ([(Read, True)], \<lparr>readOnly = [], hide = []\<rparr>)"
  "authorize demoStages \<lparr>agent = None, client = None, issuer = None\<rparr>
     (target (operation demoInput)) [Read] [(Read, True)] = Inr ()"
  by (simp_all add: demoStages_def demoInput_def)

text \<open>
  Claim C3. The four stages are called in the order credentials, modes, permissions,
  authorization. When a stage rejects, the handler rejects with that stage's error, the
  recorded calls are those of the stages up to the rejecting one and nothing else - no
  later stage, no file accessor, no next handler - and the state is untouched.
\<close>

theorem authorization_short_circuit:
  assumes run: "AuthorizingHttpHandler_handle (recordingArgs St) identifierStrategy
                  (recordingAccessor A) recordingConsole input w = (res, w')"
  shows "(\<forall>e. extractCredentials St (request input) = Inl e \<longrightarrow>
            res = Inl e \<and> durable w' = durable w
            \<and> newEvents w w' = [ExtractCredentials (request input)])
       \<and> (\<forall>cr e. extractCredentials St (request input) = Inr cr
              \<and> extractModes St (operation input) = Inl e \<longrightarrow>
            res = Inl e \<and> durable w' = durable w
            \<and> newEvents w w' = [ExtractCredentials (request input),
                                ExtractModes (operation input)])
       \<and> (\<forall>cr modes e. extractCredentials St (request input) = Inr cr
              \<and> extractModes St (operation input) = Inr modes
              \<and> readPermissions St cr (target (operation input)) modes
                    \<lparr>readOnly = [], hide = []\<rparr> = Inl e \<longrightarrow>
            res = Inl e \<and> durable w' = durable w
            \<and> newEvents w w' = [ExtractCredentials (request input),
                                ExtractModes (operation input),
                                ReadPermissions cr (target (operation input)) modes
                                  \<lparr>readOnly = [], hide = []\<rparr>])
       \<and> (\<forall>cr modes ps ap e. extractCredentials St (request input) = Inr cr
              \<and> extractModes St (operation input) = Inr modes
              \<and> readPermissions St cr (target (operation input)) modes
                    \<lparr>readOnly = [], hide = []\<rparr> = Inr (ps, ap)
              \<and> authorize St cr (target (operation input)) modes ps = Inl e \<longrightarrow>
            res = Inl e \<and> durable w' = durable w
            \<and> newEvents w w' = [ExtractCredentials (request input),
                                ExtractModes (operation input),
                                ReadPermissions cr (target (operation input)) modes
                                  \<lparr>readOnly = [], hide = []\<rparr>,
                                Authorize cr (target (operation input)) modes ps])
       \<and> (\<forall>cr modes ps ap. extractCredentials St (request input) = Inr cr
              \<and> extractModes St (operation input) = Inr modes
              \<and> readPermissions St cr (target (operation input)) modes
                    \<lparr>readOnly = [], hide = []\<rparr> = Inr (ps, ap)
              \<and> authorize St cr (target (operation input)) modes ps = Inr () \<longrightarrow>
            take 4 (newEvents w w') = [ExtractCredentials (request input),
                                ExtractModes (operation input),
                                ReadPermissions cr (target (operation input)) modes
                                  \<lparr>readOnly = [], hide = []\<rparr>,
                                Authorize cr (target (operation input)) modes ps]
            \<and> last (trace w') = OperationHandlerCall
                 (input\<lparr>operation := securedOperation identifierStrategy A
                      (authorizedOperation (operation input) ps ap) (durable w)\<rparr>))"
  using run
  by (auto simp: authorizing_recording newEvents_def Let_def)

theorem authorization_short_circuit_witness:
  "fst (demoPipeline
         (demoStages\<lparr>extractCredentials := (\<lambda>req. Inl (HttpError ValidationError ''token''))\<rparr>)
         demoWorld) = Inl (HttpError ValidationError ''token'')
   \<and> newEvents demoWorld (snd (demoPipeline
         (demoStages\<lparr>extractCredentials := (\<lambda>req. Inl (HttpError ValidationError ''token''))\<rparr>)
         demoWorld)) = [ExtractCredentials (request demoInput)]
   \<and> fst (demoPipeline
         (demoStages\<lparr>extractModes := (\<lambda>op. Inl (HttpError ValidationError ''method''))\<rparr>)
         demoWorld) = Inl (HttpError ValidationError ''method'')
   \<and> newEvents demoWorld (snd (demoPipeline
         (demoStages\<lparr>extractModes := (\<lambda>op. Inl (HttpError ValidationError ''method''))\<rparr>)
         demoWorld))
       = [ExtractCredentials (request demoInput), ExtractModes (operation demoInput)]
   \<and> fst (demoPipeline
         (demoStages\<lparr>readPermissions := (\<lambda>cr i modes ap. Inl (HttpError InternalError ''acl''))\<rparr>)
         demoWorld) = Inl (HttpError InternalError ''acl'')
   \<and> newEvents demoWorld (snd (demoPipeline
         (demoStages\<lparr>readPermissions := (\<lambda>cr i modes ap. Inl (HttpError InternalError ''acl''))\<rparr>)
         demoWorld))
       = [ExtractCredentials (request demoInput), ExtractModes (operation demoInput),
          ReadPermissions \<lparr>agent = None, client = None, issuer = None\<rparr>
            \<lparr>path = ''http://localhost:3001/note''\<rparr> [Read] \<lparr>readOnly = [], hide
                = []\<rparr>]
   \<and> fst (demoPipeline (demoStages\<lparr>readPermissions := (\<lambda>cr i modes ap. Inr ([], ap))\<rparr>)
         demoWorld) = Inl (HttpError Unauthorized ''denied'')
   \<and> newEvents demoWorld (snd (demoPipeline
         (demoStages\<lparr>readPermissions := (\<lambda>cr i modes ap. Inr ([], ap))\<rparr>) demoWorld))
       = [ExtractCredentials (request demoInput), ExtractModes (operation demoInput),
          ReadPermissions \<lparr>agent = None, client = None, issuer = None\<rparr>
            \<lparr>path = ''http://localhost:3001/note''\<rparr> [Read] \<lparr>readOnly = [], hide
                = []\<rparr>,
          Authorize \<lparr>agent = None, client = None, issuer = None\<rparr>
            \<lparr>path = ''http://localhost:3001/note''\<rparr> [Read] []]
   \<and> durable (snd (demoPipeline
         (demoStages\<lparr>readPermissions := (\<lambda>cr i modes ap. Inr ([], ap))\<rparr>) demoWorld))
       = demoDocuments"
proof -
  let ?S1 = "demoStages\<lparr>extractCredentials := (\<lambda>req. Inl (HttpError ValidationError ''token''))\<rparr>"
  let ?S2 = "demoStages\<lparr>extractModes := (\<lambda>op. Inl (HttpError ValidationError ''method''))\<rparr>"
  let ?S3 = "demoStages\<lparr>readPermissions := (\<lambda>cr i modes ap. Inl (HttpError InternalError ''acl''))\<rparr>"
  let ?S4 = "demoStages\<lparr>readPermissions := (\<lambda>cr i modes ap. Inr ([], ap))\<rparr>"
  let ?cr = "\<lparr>agent = None, client = None, issuer = None\<rparr>"
  have dw: "durable demoWorld = demoDocuments" by (simp add: demoWorld_def)
  have run: "\<And>St. AuthorizingHttpHandler_handle (recordingArgs St) demoStrategy
       (recordingAccessor memoryAccessor) recordingConsole demoInput demoWorld
       = (fst (demoPipeline St demoWorld), snd (demoPipeline St demoWorld))"
    by (simp add: demoPipeline_def)
  have base: "extractCredentials demoStages (request demoInput) = Inr ?cr"
      "extractModes demoStages (operation demoInput) = Inr [Read]"
      "authorize demoStages ?cr \<lparr>path = ''http://localhost:3001/note''\<rparr> [Read] []
         = Inl (HttpError Unauthorized ''denied'')"
    by (simp_all add: demoStages_def demoInput_def)
  have tg: "target (operation demoInput) = \<lparr>path = ''http://localhost:3001/note''\<rparr>" by
      (simp add: demoInput_def)
  have r1: "fst (demoPipeline ?S1 demoWorld) = Inl (HttpError ValidationError ''token'')
      \<and> newEvents demoWorld (snd (demoPipeline ?S1 demoWorld))
          = [ExtractCredentials (request demoInput)]"
    using authorization_short_circuit [OF run [of ?S1]] by (simp add: base tg)
  have r2: "fst (demoPipeline ?S2 demoWorld) = Inl (HttpError ValidationError ''method'')
      \<and> newEvents demoWorld (snd (demoPipeline ?S2 demoWorld))
          = [ExtractCredentials (request demoInput), ExtractModes (operation demoInput)]"
    using authorization_short_circuit [OF run [of ?S2]] by (simp add: base tg)
  have r3: "fst (demoPipeline ?S3 demoWorld) = Inl (HttpError InternalError ''acl'')
      \<and> newEvents demoWorld (snd (demoPipeline ?S3 demoWorld))
          = [ExtractCredentials (request demoInput), ExtractModes (operation demoInput),
             ReadPermissions ?cr \<lparr>path = ''http://localhost:3001/note''\<rparr> [Read]
                 \<lparr>readOnly = [], hide = []\<rparr>]"
    using authorization_short_circuit [OF run [of ?S3]] by (simp add: base tg)
  have r4: "fst (demoPipeline ?S4 demoWorld) = Inl (HttpError Unauthorized ''denied'')
      \<and> newEvents demoWorld (snd (demoPipeline ?S4 demoWorld))
          = [ExtractCredentials (request demoInput), ExtractModes (operation demoInput),
             ReadPermissions ?cr \<lparr>path = ''http://localhost:3001/note''\<rparr> [Read]
                 \<lparr>readOnly = [], hide = []\<rparr>,
             Authorize ?cr \<lparr>path = ''http://localhost:3001/note''\<rparr> [Read] []]
      \<and> durable (snd (demoPipeline ?S4 demoWorld)) = demoDocuments"
    using authorization_short_circuit [OF run [of ?S4]] dw by (simp add: base tg)
  from r1 r2 r3 r4 show ?thesis by blast
qed

text \<open>
  Claim C9. When the four stages succeed and the secure-flag block throws - the parent
  cannot be computed, or the read of its metadata rejects - the error goes to the console
  and nowhere else: the next handler is called, once and last, with the operation as it was
  after authorization, and the handler returns what the next handler returns.
\<close>

theorem secure_flag_error_swallowed:
  assumes stages: "extractCredentials St (request input) = Inr cr"
      "extractModes St (operation input) = Inr modes"
      "readPermissions St cr (target (operation input)) modes \<lparr>readOnly = [], hide = []\<rparr>
         = Inr (ps, ap)"
      "authorize St cr (target (operation input)) modes ps = Inr ()"
    and thrown: "secureFlagBody identifierStrategy A
                   (authorizedOperation (operation input) ps ap) (durable w) = (Inl err, s1)"
    and run: "AuthorizingHttpHandler_handle (recordingArgs St) identifierStrategy
                  (recordingAccessor A) recordingConsole input w = (res, w')"
  shows "res = fst (nextHandler St
                 (input\<lparr>operation := authorizedOperation (operation input) ps ap\<rparr>) s1)
       \<and> durable w' = snd (nextHandler St
                 (input\<lparr>operation := authorizedOperation (operation input) ps ap\<rparr>) s1)
       \<and> filter isOperationHandlerCall (newEvents w w') =
            [OperationHandlerCall (input\<lparr>operation := authorizedOperation (operation input) ps ap\<rparr>)]
       \<and> last (trace w') =
            OperationHandlerCall (input\<lparr>operation := authorizedOperation (operation input) ps ap\<rparr>)
       \<and> [ev \<leftarrow> newEvents w w'. ev = ConsoleLog err] = [ConsoleLog err]"
  using run
  by (auto simp: authorizing_recording newEvents_def Let_def stages thrown securedOperation_def
        consoleEvents_def secureFlagEvents_def split: sum.splits)

theorem secure_flag_error_swallowed_witness:
  "secureFlagBody demoStrategy memoryAccessor
       (authorizedOperation (operation demoInput) [(Read, True)] \<lparr>readOnly = [], hide = []\<rparr>)
       (durable emptyWorld)
     = (Inl (HttpError NotFound ''http://localhost:3001/''), [])
   \<and> fst (demoPipeline demoStages emptyWorld)
     = Inr \<lparr>statusCode = 200, response_data = None\<rparr>
   \<and> last (trace (snd (demoPipeline demoStages emptyWorld)))
     = OperationHandlerCall
         (demoInput\<lparr>operation := authorizedOperation (operation demoInput) [(Read, True)]
                                    \<lparr>readOnly = [], hide = []\<rparr>\<rparr>)
   \<and> [ev \<leftarrow> newEvents emptyWorld (snd (demoPipeline demoStages emptyWorld)).
         ev = ConsoleLog (HttpError NotFound ''http://localhost:3001/'')]
     = [ConsoleLog (HttpError NotFound ''http://localhost:3001/'')]"
proof -
  have thrown: "secureFlagBody demoStrategy memoryAccessor
       (authorizedOperation (operation demoInput) [(Read, True)] \<lparr>readOnly = [], hide = []\<rparr>)
       (durable emptyWorld)
     = (Inl (HttpError NotFound ''http://localhost:3001/''), [])"
    by (simp add: secureFlagBody_def authorizedOperation_def demoStrategy_sel demoInput_def
          memoryAccessor_def emptyWorld_def)
  have run: "AuthorizingHttpHandler_handle (recordingArgs demoStages) demoStrategy
       (recordingAccessor memoryAccessor) recordingConsole demoInput emptyWorld
       = (fst (demoPipeline demoStages emptyWorld), snd (demoPipeline demoStages emptyWorld))"
    by (simp add: demoPipeline_def)
  have nxt: "fst (nextHandler demoStages
         (demoInput\<lparr>operation := authorizedOperation (operation demoInput) [(Read, True)]
                                    \<lparr>readOnly = [], hide = []\<rparr>\<rparr>) [])
       = Inr \<lparr>statusCode = 200, response_data = None\<rparr>"
    by (simp add: demoStages_def)
  from secure_flag_error_swallowed [OF demoStages_succeed thrown run] thrown nxt
  show ?thesis by simp
qed

lemma filter_secureFlagEvents:
  "filter isOperationHandlerCall (secureFlagEvents st x) = []"
  "filter isAccessorEvent (secureFlagEvents st x) = secureFlagEvents st x"
  by (cases "isRootContainer st (target x)"; cases "getParentContainer st (target x)";
      simp add: secureFlagEvents_def)+

lemma filter_consoleEvents:
  "filter isOperationHandlerCall (consoleEvents r) = []"
  "filter isAccessorEvent (consoleEvents r) = []"
  by (cases r; simp add: consoleEvents_def)+

text \<open>
  Claim C4, amended. When the four stages succeed, the next handler is called once, with
  the request unchanged and the incoming operation changed in this way only: it carries the
  permission set and the attribute permissions read by the permission reader, and, when the
  target is not the root container, has a parent and the read of the parent's metadata
  succeeds, \<^verbatim>\<open>preferences.secure\<close> is \<^verbatim>\<open>{enable: 0}\<close> if the metadata list the target under
  \<open>secureOff\<close> and \<^verbatim>\<open>{enable: 1}\<close> if not. For a root container, a target without parent or
  a rejected read the preferences are the incoming ones. The file accessor is called for the
  read of the parent's metadata, once, and for nothing else.
\<close>

theorem authorized_operation_forwarded:
  assumes stages: "extractCredentials St (request input) = Inr cr"
      "extractModes St (operation input) = Inr modes"
      "readPermissions St cr (target (operation input)) modes \<lparr>readOnly = [], hide = []\<rparr>
         = Inr (ps, ap)"
      "authorize St cr (target (operation input)) modes ps = Inr ()"
    and run: "AuthorizingHttpHandler_handle (recordingArgs St) identifierStrategy
                  (recordingAccessor A) recordingConsole input w = (res, w')"
  shows "\<exists>op5. filter isOperationHandlerCall (newEvents w w') =
                 [OperationHandlerCall \<lparr>request = request input, operation = op5\<rparr>]
           \<and> permissionSet op5 = Some ps
           \<and> attributePermissions op5 = Some ap
           \<and> operation_method op5 = operation_method (operation input)
           \<and> target op5 = target (operation input)
           \<and> conditions op5 = conditions (operation input)
           \<and> body op5 = body (operation input)
           \<and> pref_type (preferences op5) = pref_type (preferences (operation input))
           \<and> (isRootContainer identifierStrategy (target (operation input)) \<longrightarrow>
                 op5 = (operation input)\<lparr>permissionSet := Some ps,
                                          attributePermissions := Some ap\<rparr>
                 \<and> filter isAccessorEvent (newEvents w w') = [])
           \<and> (\<forall>err.
                 \<not> isRootContainer identifierStrategy (target (operation input))
                 \<and> getParentContainer identifierStrategy (target (operation input)) = Inl err \<longrightarrow>
                 op5 = (operation input)\<lparr>permissionSet := Some ps,
                                          attributePermissions := Some ap\<rparr>
                 \<and> filter isAccessorEvent (newEvents w w') = [])
           \<and> (\<forall>parent err s1.
                 \<not> isRootContainer identifierStrategy (target (operation input))
                 \<and> getParentContainer identifierStrategy (target (operation input)) = Inr parent
                 \<and> getMetadata A parent (durable w) = (Inl err, s1) \<longrightarrow>
                 op5 = (operation input)\<lparr>permissionSet := Some ps,
                                          attributePermissions := Some ap\<rparr>
                 \<and> filter isAccessorEvent (newEvents w w') = [GetMetadata parent])
           \<and> (\<forall>parent md s1.
                 \<not> isRootContainer identifierStrategy (target (operation input))
                 \<and> getParentContainer identifierStrategy (target (operation input)) = Inr parent
                 \<and> getMetadata A parent (durable w) = (Inr md, s1) \<longrightarrow>
                 op5 = (operation input)
                         \<lparr>permissionSet := Some ps,
                          attributePermissions := Some ap,
                          preferences := (preferences (operation input))
                            \<lparr>secure := Some \<lparr>enable =
                                (if path (target (operation input)) \<in> set (getAll md secureOff)
                                 then 0 else 1)\<rparr>\<rparr>\<rparr>
                 \<and> filter isAccessorEvent (newEvents w w') = [GetMetadata parent])"
proof -
  let ?op4 = "authorizedOperation (operation input) ps ap"
  let ?op5 = "securedOperation identifierStrategy A ?op4 (durable w)"
  let ?evs = "[ExtractCredentials (request input), ExtractModes (operation input),
               ReadPermissions cr (target (operation input)) modes \<lparr>readOnly = [], hide = []\<rparr>,
               Authorize cr (target (operation input)) modes ps]
              @ secureFlagEvents identifierStrategy ?op4
              @ consoleEvents (fst (secureFlagBody identifierStrategy A ?op4 (durable w)))
              @ [OperationHandlerCall (input\<lparr>operation := ?op5\<rparr>)]"
  have evs: "newEvents w w' = ?evs"
    using run by (auto simp: authorizing_recording newEvents_def Let_def stages)
  have upd: "input\<lparr>operation := ?op5\<rparr> = \<lparr>request = request input, operation = ?op5\<rparr>"
    by (cases input) simp
  have call: "filter isOperationHandlerCall ?evs =
              [OperationHandlerCall \<lparr>request = request input, operation = ?op5\<rparr>]"
    by (simp add: filter_secureFlagEvents filter_consoleEvents upd)
  have acc: "filter isAccessorEvent ?evs = secureFlagEvents identifierStrategy ?op4"
    by (simp add: filter_secureFlagEvents filter_consoleEvents)
  have tgt: "target ?op4 = target (operation input)"
    by (simp add: authorizedOperation_def)
  have fields: "permissionSet ?op5 = Some ps \<and> attributePermissions ?op5 = Some ap
      \<and> operation_method ?op5 = operation_method (operation input)
      \<and> target ?op5 = target (operation input)
      \<and> conditions ?op5 = conditions (operation input)
      \<and> body ?op5 = body (operation input)
      \<and> pref_type (preferences ?op5) = pref_type (preferences (operation input))"
    by (auto simp: securedOperation_def secureFlagBody_def authorizedOperation_def Let_def
          split: sum.splits prod.splits if_splits)
  have root: "isRootContainer identifierStrategy (target (operation input)) \<longrightarrow>
      ?op5 = (operation input)\<lparr>permissionSet := Some ps, attributePermissions := Some ap\<rparr>
      \<and> secureFlagEvents identifierStrategy ?op4 = []"
    by (simp add: securedOperation_def secureFlagBody_def secureFlagEvents_def
          authorizedOperation_def)
  have orphan: "\<forall>err.
      \<not> isRootContainer identifierStrategy (target (operation input))
      \<and> getParentContainer identifierStrategy (target (operation input)) = Inl err \<longrightarrow>
      ?op5 = (operation input)\<lparr>permissionSet := Some ps, attributePermissions := Some ap\<rparr>
      \<and> secureFlagEvents identifierStrategy ?op4 = []"
    by (simp add: securedOperation_def secureFlagBody_def secureFlagEvents_def
          authorizedOperation_def)
  have rejected: "\<forall>parent err s1.
      \<not> isRootContainer identifierStrategy (target (operation input))
      \<and> getParentContainer identifierStrategy (target (operation input)) = Inr parent
      \<and> getMetadata A parent (durable w) = (Inl err, s1) \<longrightarrow>
      ?op5 = (operation input)\<lparr>permissionSet := Some ps, attributePermissions := Some ap\<rparr>
      \<and> secureFlagEvents identifierStrategy ?op4 = [GetMetadata parent]"
    by (simp add: securedOperation_def secureFlagBody_def secureFlagEvents_def
          authorizedOperation_def)
  have mem: "\<And>p xs. (filter (\<lambda>item. item = p) xs = []) = (p \<notin> set xs)"
    by (auto simp: filter_empty_conv)
  have flag: "\<forall>parent md s1.
      \<not> isRootContainer identifierStrategy (target (operation input))
      \<and> getParentContainer identifierStrategy (target (operation input)) = Inr parent
      \<and> getMetadata A parent (durable w) = (Inr md, s1) \<longrightarrow>
      ?op5 = (operation input)
               \<lparr>permissionSet := Some ps,
                attributePermissions := Some ap,
                preferences := (preferences (operation input))
                  \<lparr>secure := Some \<lparr>enable =
                      (if path (target (operation input)) \<in> set (getAll md secureOff)
                       then 0 else 1)\<rparr>\<rparr>\<rparr>
      \<and> secureFlagEvents identifierStrategy ?op4 = [GetMetadata parent]"
    by (simp add: securedOperation_def secureFlagBody_def secureFlagEvents_def
          authorizedOperation_def Let_def mem)
  show ?thesis
    unfolding evs call acc
    using fields root orphan rejected flag by (intro exI [of _ ?op5]) blast
qed

lemma demoStrategy_paths:
  "isRootContainer demoStrategy \<lparr>path = ''http://localhost:3001/''\<rparr>"
  "\<not> isRootContainer demoStrategy \<lparr>path = ''http://localhost:3001/private''\<rparr>"
  "getParentContainer demoStrategy \<lparr>path = ''http://localhost:3001/private''\<rparr>
     = Inr \<lparr>path = ''http://localhost:3001/''\<rparr>"
  "\<not> isRootContainer demoStrategy \<lparr>path = ''/note''\<rparr>"
  "getParentContainer demoStrategy \<lparr>path = ''/note''\<rparr>
     = Inl (HttpError InternalError ''/note is outside the identifier space'')"
  by (simp_all add: demoStrategy_def singleRootStrategy_def ensureTrailingSlash_def)

lemma demoGet_stages:
  "extractCredentials demoStages (request (demoGet p))
     = Inr \<lparr>agent = None, client = None, issuer = None\<rparr>"
  "extractModes demoStages (operation (demoGet p)) = Inr [Read]"
  "readPermissions demoStages \<lparr>agent = None, client = None, issuer = None\<rparr>
     (target (operation (demoGet p))) [Read] \<lparr>readOnly = [], hide = []\<rparr>
     = Inr ([(Read, True)], \<lparr>readOnly = [], hide = []\<rparr>)"
  "authorize demoStages \<lparr>agent = None, client = None, issuer = None\<rparr>
     (target (operation (demoGet p))) [Read] [(Read, True)] = Inr ()"
  by (simp_all add: demoStages_def demoGet_def)

lemma demoGet_sel:
  "request (demoGet p) = \<lparr>request_method = ''GET'', url = p, headers = []\<rparr>"
  "target (operation (demoGet p)) = \<lparr>path = p\<rparr>"
  "preferences (operation (demoGet p)) = emptyPreferences"
  by (simp_all add: demoGet_def)

lemma demoMetadata:
  "getMetadata memoryAccessor \<lparr>path = ''http://localhost:3001/''\<rparr> (durable demoWorld)
     = (Inr \<lparr>md_identifier = \<lparr>path = ''http://localhost:3001/''\<rparr>,
            md_quads = [(secureOff, ''http://localhost:3001/private'')]\<rparr>, demoDocuments)"
  "getMetadata memoryAccessor \<lparr>path = ''http://localhost:3001/''\<rparr> (durable emptyWorld)
     = (Inl (HttpError NotFound ''http://localhost:3001/''), [])"
  by (simp_all add: memoryAccessor_def demoWorld_def demoDocuments_def emptyWorld_def)

theorem authorized_operation_forwarded_witness:
  "filter isOperationHandlerCall
       (newEvents demoWorld (snd (demoAuthorized demoWorld ''http://localhost:3001/note'')))
     = [OperationHandlerCall
          \<lparr>request = request (demoGet ''http://localhost:3001/note''),
           operation = (demoPermitted ''http://localhost:3001/note'')
             \<lparr>preferences := emptyPreferences\<lparr>secure := Some \<lparr>enable = 1\<rparr>\<rparr>\<rparr>\<rparr>]
   \<and> filter isAccessorEvent
       (newEvents demoWorld (snd (demoAuthorized demoWorld ''http://localhost:3001/note'')))
     = [GetMetadata \<lparr>path = ''http://localhost:3001/''\<rparr>]
   \<and> filter isOperationHandlerCall
       (newEvents demoWorld (snd (demoAuthorized demoWorld ''http://localhost:3001/private'')))
     = [OperationHandlerCall
          \<lparr>request = request (demoGet ''http://localhost:3001/private''),
           operation = (demoPermitted ''http://localhost:3001/private'')
             \<lparr>preferences := emptyPreferences\<lparr>secure := Some \<lparr>enable = 0\<rparr>\<rparr>\<rparr>\<rparr>]
   \<and> filter isOperationHandlerCall
       (newEvents demoWorld (snd (demoAuthorized demoWorld ''http://localhost:3001/'')))
     = [OperationHandlerCall
          \<lparr>request = request (demoGet ''http://localhost:3001/''),
           operation = demoPermitted ''http://localhost:3001/''\<rparr>]
   \<and> filter isAccessorEvent
       (newEvents demoWorld (snd (demoAuthorized demoWorld ''http://localhost:3001/''))) = []
   \<and> filter isOperationHandlerCall
       (newEvents demoWorld (snd (demoAuthorized demoWorld ''/note'')))
     = [OperationHandlerCall
          \<lparr>request = request (demoGet ''/note''), operation = demoPermitted ''/note''\<rparr>]
   \<and> filter isAccessorEvent
       (newEvents demoWorld (snd (demoAuthorized demoWorld ''/note''))) = []
   \<and> filter isOperationHandlerCall
       (newEvents emptyWorld (snd (demoAuthorized emptyWorld ''http://localhost:3001/note'')))
     = [OperationHandlerCall
          \<lparr>request = request (demoGet ''http://localhost:3001/note''),
           operation = demoPermitted ''http://localhost:3001/note''\<rparr>]
   \<and> filter isAccessorEvent
       (newEvents emptyWorld (snd (demoAuthorized emptyWorld ''http://localhost:3001/note'')))
     = [GetMetadata \<lparr>path = ''http://localhost:3001/''\<rparr>]"
proof -
  let ?root = "''http://localhost:3001/''" and ?note = "''http://localhost:3001/note''"
    and ?private = "''http://localhost:3001/private''"
  have run: "\<And>w p. AuthorizingHttpHandler_handle (recordingArgs demoStages) demoStrategy
       (recordingAccessor memoryAccessor) recordingConsole (demoGet p) w
       = (fst (demoAuthorized w p), snd (demoAuthorized w p))"
    by (simp add: demoAuthorized_def)
  note fwd = authorized_operation_forwarded [OF demoGet_stages run, unfolded demoGet_sel]
  have listed: "getAll \<lparr>md_identifier = \<lparr>path = ?root\<rparr>, md_quads = [(secureOff, ?private)]\<rparr>
                  secureOff = [?private]"
    by (simp add: getAll_def)
  have a: "filter isOperationHandlerCall (newEvents demoWorld (snd (demoAuthorized demoWorld ?note)))
       = [OperationHandlerCall \<lparr>request = request (demoGet ?note),
            operation = (demoPermitted ?note)
              \<lparr>preferences := emptyPreferences\<lparr>secure := Some \<lparr>enable = 1\<rparr>\<rparr>\<rparr>\<rparr>]
     \<and> filter isAccessorEvent (newEvents demoWorld (snd (demoAuthorized demoWorld ?note)))
       = [GetMetadata \<lparr>path = ?root\<rparr>]"
  proof -
    from fwd [of demoWorld ?note] obtain op5 where
      call: "filter isOperationHandlerCall (newEvents demoWorld (snd (demoAuthorized demoWorld ?note)))
               = [OperationHandlerCall \<lparr>request = \<lparr>request_method = ''GET'', url = ?note,
                                                     headers = []\<rparr>, operation = op5\<rparr>]"
      and here: "\<forall>parent md s1.
                 \<not> isRootContainer demoStrategy \<lparr>path = ?note\<rparr>
                 \<and> getParentContainer demoStrategy \<lparr>path = ?note\<rparr> = Inr parent
                 \<and> getMetadata memoryAccessor parent (durable demoWorld) = (Inr md, s1) \<longrightarrow>
                 op5 = (operation (demoGet ?note))
                         \<lparr>permissionSet := Some [(Read, True)],
                          attributePermissions := Some \<lparr>readOnly = [], hide = []\<rparr>,
                          preferences := emptyPreferences
                            \<lparr>secure := Some \<lparr>enable =
                                (if path \<lparr>path = ?note\<rparr> \<in> set (getAll md secureOff)
                                 then 0 else 1)\<rparr>\<rparr>\<rparr>
                 \<and> filter isAccessorEvent
                       (newEvents demoWorld (snd (demoAuthorized demoWorld ?note)))
                     = [GetMetadata parent]"
      by blast
    from here [rule_format, OF conjI [OF demoStrategy_sel(2) conjI [OF demoStrategy_sel(3) demoMetadata(1)]]]
    show ?thesis
      by (simp add: call listed demoPermitted_def demoGet_sel)
  qed
  have b: "filter isOperationHandlerCall (newEvents demoWorld (snd (demoAuthorized demoWorld ?private)))
       = [OperationHandlerCall \<lparr>request = request (demoGet ?private),
            operation = (demoPermitted ?private)
              \<lparr>preferences := emptyPreferences\<lparr>secure := Some \<lparr>enable = 0\<rparr>\<rparr>\<rparr>\<rparr>]
     \<and> filter isAccessorEvent (newEvents demoWorld (snd (demoAuthorized demoWorld ?private)))
       = [GetMetadata \<lparr>path = ?root\<rparr>]"
  proof -
    from fwd [of demoWorld ?private] obtain op5 where
      call: "filter isOperationHandlerCall (newEvents demoWorld (snd (demoAuthorized demoWorld ?private)))
               = [OperationHandlerCall \<lparr>request = \<lparr>request_method = ''GET'', url = ?private,
                                                     headers = []\<rparr>, operation = op5\<rparr>]"
      and here: "\<forall>parent md s1.
                 \<not> isRootContainer demoStrategy \<lparr>path = ?private\<rparr>
                 \<and> getParentContainer demoStrategy \<lparr>path = ?private\<rparr> = Inr parent
                 \<and> getMetadata memoryAccessor parent (durable demoWorld) = (Inr md, s1) \<longrightarrow>
                 op5 = (operation (demoGet ?private))
                         \<lparr>permissionSet := Some [(Read, True)],
                          attributePermissions := Some \<lparr>readOnly = [], hide = []\<rparr>,
                          preferences := emptyPreferences
                            \<lparr>secure := Some \<lparr>enable =
                                (if path \<lparr>path = ?private\<rparr> \<in> set (getAll md secureOff)
                                 then 0 else 1)\<rparr>\<rparr>\<rparr>
                 \<and> filter isAccessorEvent
                       (newEvents demoWorld (snd (demoAuthorized demoWorld ?private)))
                     = [GetMetadata parent]"
      by blast
    from here [rule_format, OF conjI [OF demoStrategy_paths(2) conjI [OF demoStrategy_paths(3) demoMetadata(1)]]]
    show ?thesis
      by (simp add: call listed demoPermitted_def demoGet_sel)
  qed
  have c: "filter isOperationHandlerCall (newEvents demoWorld (snd (demoAuthorized demoWorld ?root)))
       = [OperationHandlerCall \<lparr>request = request (demoGet ?root),
            operation = demoPermitted ?root\<rparr>]
     \<and> filter isAccessorEvent (newEvents demoWorld (snd (demoAuthorized demoWorld ?root)))
       = []"
  proof -
    from fwd [of demoWorld ?root] obtain op5 where
      call: "filter isOperationHandlerCall (newEvents demoWorld (snd (demoAuthorized demoWorld ?root)))
               = [OperationHandlerCall \<lparr>request = \<lparr>request_method = ''GET'', url = ?root,
                                                     headers = []\<rparr>, operation = op5\<rparr>]"
      and here: "isRootContainer demoStrategy \<lparr>path = ?root\<rparr> \<longrightarrow>
                 op5 = (operation (demoGet ?root))
                         \<lparr>permissionSet := Some [(Read, True)],
                          attributePermissions := Some \<lparr>readOnly = [], hide = []\<rparr>\<rparr>
                 \<and> filter isAccessorEvent
                       (newEvents demoWorld (snd (demoAuthorized demoWorld ?root))) = []"
      by blast
    from here [rule_format, OF demoStrategy_paths(1)]
    show ?thesis
      by (simp add: call listed demoPermitted_def demoGet_sel)
  qed
  have d: "filter isOperationHandlerCall (newEvents demoWorld (snd (demoAuthorized demoWorld ''/note'')))
       = [OperationHandlerCall \<lparr>request = request (demoGet ''/note''),
            operation = demoPermitted ''/note''\<rparr>]
     \<and> filter isAccessorEvent (newEvents demoWorld (snd (demoAuthorized demoWorld ''/note'')))
       = []"
  proof -
    from fwd [of demoWorld "''/note''"] obtain op5 where
      call: "filter isOperationHandlerCall (newEvents demoWorld (snd (demoAuthorized demoWorld ''/note'')))
               = [OperationHandlerCall \<lparr>request = \<lparr>request_method = ''GET'', url = ''/note'',
                                                     headers = []\<rparr>, operation = op5\<rparr>]"
      and here: "\<forall>err.
                 \<not> isRootContainer demoStrategy \<lparr>path = ''/note''\<rparr>
                 \<and> getParentContainer demoStrategy \<lparr>path = ''/note''\<rparr> = Inl err \<longrightarrow>
                 op5 = (operation (demoGet ''/note''))
                         \<lparr>permissionSet := Some [(Read, True)],
                          attributePermissions := Some \<lparr>readOnly = [], hide = []\<rparr>\<rparr>
                 \<and> filter isAccessorEvent
                       (newEvents demoWorld (snd (demoAuthorized demoWorld ''/note''))) = []"
      by blast
    from here [rule_format, OF conjI [OF demoStrategy_paths(4) demoStrategy_paths(5)]]
    show ?thesis
      by (simp add: call listed demoPermitted_def demoGet_sel)
  qed
  have e: "filter isOperationHandlerCall (newEvents emptyWorld (snd (demoAuthorized emptyWorld ?note)))
       = [OperationHandlerCall \<lparr>request = request (demoGet ?note),
            operation = demoPermitted ?note\<rparr>]
     \<and> filter isAccessorEvent (newEvents emptyWorld (snd (demoAuthorized emptyWorld ?note)))
       = [GetMetadata \<lparr>path = ?root\<rparr>]"
  proof -
    from fwd [of emptyWorld ?note] obtain op5 where
      call: "filter isOperationHandlerCall (newEvents emptyWorld (snd (demoAuthorized emptyWorld ?note)))
               = [OperationHandlerCall \<lparr>request = \<lparr>request_method = ''GET'', url = ?note,
                                                     headers = []\<rparr>, operation = op5\<rparr>]"
      and here: "\<forall>parent err s1.
                 \<not> isRootContainer demoStrategy \<lparr>path = ?note\<rparr>
                 \<and> getParentContainer demoStrategy \<lparr>path = ?note\<rparr> = Inr parent
                 \<and> getMetadata memoryAccessor parent (durable emptyWorld) = (Inl err, s1) \<longrightarrow>
                 op5 = (operation (demoGet ?note))
                         \<lparr>permissionSet := Some [(Read, True)],
                          attributePermissions := Some \<lparr>readOnly = [], hide = []\<rparr>\<rparr>
                 \<and> filter isAccessorEvent
                       (newEvents emptyWorld (snd (demoAuthorized emptyWorld ?note)))
                     = [GetMetadata parent]"
      by blast
    from here [rule_format, OF conjI [OF demoStrategy_sel(2) conjI [OF demoStrategy_sel(3) demoMetadata(2)]]]
    show ?thesis
      by (simp add: call listed demoPermitted_def demoGet_sel)
  qed
  from a b c d e show ?thesis by simp
qed


text \<open>
  Claim C4 as stated fails: the operation that reaches the next handler differs from the
  incoming one in more than the permission set. For the root container it also carries the
  attribute permissions; for a document under the root it carries, besides, the flag
  \<^verbatim>\<open>preferences.secure\<close>, which the incoming operation does not have.
\<close>

theorem forwarded_operation_counterexample:
  "filter isOperationHandlerCall
       (newEvents demoWorld (snd (demoAuthorized demoWorld ''http://localhost:3001/'')))
     = [OperationHandlerCall
          \<lparr>request = request (demoGet ''http://localhost:3001/''),
           operation = (operation (demoGet ''http://localhost:3001/''))
             \<lparr>permissionSet := Some [(Read, True)],
              attributePermissions := Some \<lparr>readOnly = [], hide = []\<rparr>\<rparr>\<rparr>]
   \<and> (operation (demoGet ''http://localhost:3001/''))
         \<lparr>permissionSet := Some [(Read, True)],
          attributePermissions := Some \<lparr>readOnly = [], hide = []\<rparr>\<rparr>
       \<noteq> (operation (demoGet ''http://localhost:3001/''))
           \<lparr>permissionSet := Some [(Read, True)]\<rparr>
   \<and> filter isOperationHandlerCall
       (newEvents demoWorld (snd (demoAuthorized demoWorld ''http://localhost:3001/note'')))
     = [OperationHandlerCall
          \<lparr>request = request (demoGet ''http://localhost:3001/note''),
           operation = (operation (demoGet ''http://localhost:3001/note''))
             \<lparr>permissionSet := Some [(Read, True)],
              attributePermissions := Some \<lparr>readOnly = [], hide = []\<rparr>,
              preferences := \<lparr>pref_type = [], secure = Some \<lparr>enable = 1\<rparr>\<rparr>\<rparr>\<rparr>]
   \<and> secure (preferences (operation (demoGet ''http://localhost:3001/note''))) = None"
proof -
  have body1: "secureFlagBody demoStrategy memoryAccessor
                 (authorizedOperation (operation (demoGet ''http://localhost:3001/''))
                    [(Read, True)] \<lparr>readOnly = [], hide = []\<rparr>) demoDocuments
      = (Inr (authorizedOperation (operation (demoGet ''http://localhost:3001/''))
                [(Read, True)] \<lparr>readOnly = [], hide = []\<rparr>), demoDocuments)"
    by (simp add: secureFlagBody_def authorizedOperation_def demoGet_sel demoStrategy_paths)
  have body2: "secureFlagBody demoStrategy memoryAccessor
                 (authorizedOperation (operation (demoGet ''http://localhost:3001/note''))
                    [(Read, True)] \<lparr>readOnly = [], hide = []\<rparr>) demoDocuments
      = (Inr ((operation (demoGet ''http://localhost:3001/note''))
             \<lparr>permissionSet := Some [(Read, True)],
              attributePermissions := Some \<lparr>readOnly = [], hide = []\<rparr>,
              preferences := \<lparr>pref_type = [], secure = Some \<lparr>enable = 1\<rparr>\<rparr>\<rparr>), demoDocuments)"
    using demoMetadata(1)
    by (simp add: secureFlagBody_def authorizedOperation_def demoGet_sel demoStrategy_sel
          getAll_def emptyPreferences_def demoWorld_def)
  have dw: "durable demoWorld = demoDocuments" "trace demoWorld = []"
    by (simp_all add: demoWorld_def)
  have upd: "\<And>inp op. inp\<lparr>operation := op\<rparr> = \<lparr>request = request inp, operation = op\<rparr>"
    by (case_tac inp) simp
  have c1: "filter isOperationHandlerCall
       (newEvents demoWorld (snd (demoAuthorized demoWorld ''http://localhost:3001/'')))
     = [OperationHandlerCall
          \<lparr>request = request (demoGet ''http://localhost:3001/''),
           operation = (operation (demoGet ''http://localhost:3001/''))
             \<lparr>permissionSet := Some [(Read, True)],
              attributePermissions := Some \<lparr>readOnly = [], hide = []\<rparr>\<rparr>\<rparr>]"
    by (simp add: demoAuthorized_def authorizing_recording demoGet_stages Let_def newEvents_def
          dw body1 securedOperation_def filter_secureFlagEvents filter_consoleEvents upd)
       (simp add: authorizedOperation_def)
  have c2: "filter isOperationHandlerCall
       (newEvents demoWorld (snd (demoAuthorized demoWorld ''http://localhost:3001/note'')))
     = [OperationHandlerCall
          \<lparr>request = request (demoGet ''http://localhost:3001/note''),
           operation = (operation (demoGet ''http://localhost:3001/note''))
             \<lparr>permissionSet := Some [(Read, True)],
              attributePermissions := Some \<lparr>readOnly = [], hide = []\<rparr>,
              preferences := \<lparr>pref_type = [], secure = Some \<lparr>enable = 1\<rparr>\<rparr>\<rparr>\<rparr>]"
    by (simp add: demoAuthorized_def authorizing_recording demoGet_stages Let_def newEvents_def
          dw body2 securedOperation_def filter_secureFlagEvents filter_consoleEvents upd)
  have d1: "(operation (demoGet ''http://localhost:3001/''))
         \<lparr>permissionSet := Some [(Read, True)],
          attributePermissions := Some \<lparr>readOnly = [], hide = []\<rparr>\<rparr>
       \<noteq> (operation (demoGet ''http://localhost:3001/''))
           \<lparr>permissionSet := Some [(Read, True)]\<rparr>"
    by (simp add: demoGet_def)
  have d2: "secure (preferences (operation (demoGet ''http://localhost:3001/note''))) = None"
    by (simp add: demoGet_def emptyPreferences_def)
  from c1 d1 c2 d2 show ?thesis by blast
qed

section \<open>Properties of ContainerInitializer\<close>































end
